theory Spec2Isabelle
  imports Main "HOL-Library.Word" "HOL-Library.AList"
begin

section \<open>Common data: bytes, transaction ids, messages\<close>

text \<open>
  Bytes are 8-bit words, a Go \<^verbatim>\<open>[]byte\<close> is a list of them. A STUN transaction id is
  the 12-byte array \<^verbatim>\<open>stun.TransactionID\<close>, kept as one 96-bit word. Network addresses are
  the strings the sockets compare (\<^verbatim>\<open>"ip:port"\<close>).
\<close>

type_synonym byte = "8 word"
type_synonym bytes = "byte list"
type_synonym TransactionID = "96 word"
type_synonym AttrType = "16 word"

datatype Method =
  MethodBinding | MethodAllocate | MethodRefresh | MethodSend | MethodData
  | MethodCreatePermission | MethodChannelBind | MethodChannelData

datatype MessageClass =
  ClassRequest | ClassIndication | ClassSuccessResponse | ClassErrorResponse

record MessageType =
  Method :: Method
  Class :: MessageClass

text \<open>
  \<^verbatim>\<open>stun.Message\<close>: the type, the transaction id, the decoded attributes in order and
  the raw bytes of the whole message.
\<close>

record Message =
  Type :: MessageType
  TransactionID :: TransactionID
  Attributes :: "(AttrType \<times> bytes) list"
  Raw :: bytes

definition BindingRequest :: MessageType where
  "BindingRequest = \<lparr>Method = MethodBinding, Class = ClassRequest\<rparr>"

definition BindingSuccess :: MessageType where
  "BindingSuccess = \<lparr>Method = MethodBinding, Class = ClassSuccessResponse\<rparr>"

definition BindingError :: MessageType where
  "BindingError = \<lparr>Method = MethodBinding, Class = ClassErrorResponse\<rparr>"

definition BindingIndication :: MessageType where
  "BindingIndication = \<lparr>Method = MethodBinding, Class = ClassIndication\<rparr>"

definition SendIndication :: MessageType where
  "SendIndication = \<lparr>Method = MethodSend, Class = ClassIndication\<rparr>"

definition DataIndication :: MessageType where
  "DataIndication = \<lparr>Method = MethodData, Class = ClassIndication\<rparr>"

definition ChannelBindRequest :: MessageType where
  "ChannelBindRequest = \<lparr>Method = MethodChannelBind, Class = ClassRequest\<rparr>"

definition ChannelDataRequest :: MessageType where
  "ChannelDataRequest = \<lparr>Method = MethodChannelData, Class = ClassRequest\<rparr>"

text \<open>The attribute type numbers the modelled code needs (RFC 5389 and RFC 5766).\<close>

definition AttrErrorCode :: AttrType where "AttrErrorCode = 0x0009"
definition AttrXORPeerAddress :: AttrType where "AttrXORPeerAddress = 0x0012"
definition AttrData :: AttrType where "AttrData = 0x0013"
definition AttrReservationToken :: AttrType where "AttrReservationToken = 0x0022"

text \<open>
  The errors and panics of the modelled code. A Go \<^verbatim>\<open>panic\<close> is the result
  \<open>Panic\<close>, an \<^verbatim>\<open>error\<close> return is \<open>Err\<close>.
\<close>

datatype error =
  ErrAttributeNotFound
  | ErrUnexpectedEOF
  | ErrBadMagicCookie
  | AttrOverflowErr AttrType nat nat
  | BadAttrLength AttrType nat nat
  | ErrNoDefaultReason
  | ErrTransactionStopped
  | ErrTransactionNotExists
  | ErrTransactionExists
  | ErrTransactionTimeOut
  | ErrAgentClosed
  | errTimeout
  | errDuplicateWaiter
  | errWaiterClosed
  | errChannelBind
  | errOther string

datatype 'a result = Ok 'a | Err error | Panic string

section \<open>The message container (package stun)\<close>

text \<open>
  Modelled from the spec: \<^verbatim>\<open>Message.Add\<close>, \<^verbatim>\<open>Message.Get\<close>, \<^verbatim>\<open>Message.WriteHeader\<close> and the
  decoder \<^verbatim>\<open>Message.Write\<close> are not among the source files. The spec (3, 4.1) gives the
  layout: a 20-byte header (type, length, magic cookie \<^verbatim>\<open>0x2112A442\<close>, transaction id), then
  the attributes in insertion order, each a TLV with 16-bit type, 16-bit length of the
  unpadded value, and the value padded with zero bytes to a multiple of 4; the length field
  of the header is the sum of the padded attribute sizes.
\<close>

definition be16 :: "nat \<Rightarrow> bytes" where
  "be16 n = [of_nat (n div 256), of_nat (n mod 256)]"

definition rd16 :: "byte \<Rightarrow> byte \<Rightarrow> nat" where
  "rd16 a b = unat a * 256 + unat b"

definition padLen :: "nat \<Rightarrow> nat" where
  "padLen n = (4 - n mod 4) mod 4"

definition encodeAttr :: "AttrType \<times> bytes \<Rightarrow> bytes" where
  "encodeAttr a = be16 (unat (fst a)) @ be16 (length (snd a)) @ snd a
                   @ replicate (padLen (length (snd a))) 0"

definition encodeAttrs :: "(AttrType \<times> bytes) list \<Rightarrow> bytes" where
  "encodeAttrs as = concat (map encodeAttr as)"

text \<open>Modelled from the spec: \<^verbatim>\<open>Message.Add\<close> appends one attribute, to the list and to the raw bytes.\<close>

definition Add :: "AttrType \<Rightarrow> bytes \<Rightarrow> Message \<Rightarrow> Message" where
  "Add t v m = m\<lparr>Attributes := Attributes m @ [(t, v)], Raw := Raw m @ encodeAttr (t, v)\<rparr>"

text \<open>Modelled from the spec: \<^verbatim>\<open>Message.Get\<close> returns the value of the first attribute of a type.\<close>

fun getAttr :: "AttrType \<Rightarrow> (AttrType \<times> bytes) list \<Rightarrow> bytes result" where
  "getAttr t [] = Err ErrAttributeNotFound"
| "getAttr t (a # as) = (if fst a = t then Ok (snd a) else getAttr t as)"

definition Get :: "AttrType \<Rightarrow> Message \<Rightarrow> bytes result" where
  "Get t m = getAttr t (Attributes m)"

text \<open>
  Modelled from the spec: the decoder of the attribute section. It reads TLVs until the bytes
  are used up; a truncated TLV is \<^verbatim>\<open>UnexpectedEOF\<close>. The fuel argument bounds the number
  of attributes; every TLV takes at least 4 bytes, so the number of bytes is always enough.
\<close>

fun decodeAttrs :: "nat \<Rightarrow> bytes \<Rightarrow> (AttrType \<times> bytes) list result" where
  "decodeAttrs fuel [] = Ok []"
| "decodeAttrs 0 (b # bs) = Err ErrUnexpectedEOF"
| "decodeAttrs (Suc fuel) (t0 # t1 # l0 # l1 # rest) =
     (let n = rd16 l0 l1; p = n + padLen n in
      if length rest < p then Err ErrUnexpectedEOF
      else (case decodeAttrs fuel (drop p rest) of
              Ok as \<Rightarrow> Ok ((of_nat (rd16 t0 t1), take n rest) # as)
            | Err e \<Rightarrow> Err e
            | Panic s \<Rightarrow> Panic s))"
| "decodeAttrs (Suc fuel) bs = Err ErrUnexpectedEOF"

section \<open>ERROR-CODE (stun/errorcode.go)\<close>

type_synonym ErrorCode = int

record ErrorCodeAttribute =
  Code :: ErrorCode
  Reason :: bytes

definition errorCodeReasonStart :: nat where "errorCodeReasonStart = 4"
definition errorCodeClassByte :: nat where "errorCodeClassByte = 2"
definition errorCodeNumberByte :: nat where "errorCodeNumberByte = 3"
definition errorCodeReasonMaxB :: nat where "errorCodeReasonMaxB = 763"
definition errorCodeModulo :: int where "errorCodeModulo = 100"

text \<open>Go's \<^verbatim>\<open>/\<close> and \<^verbatim>\<open>%\<close> on \<^verbatim>\<open>int\<close> truncate towards zero.\<close>

definition go_quot :: "int \<Rightarrow> int \<Rightarrow> int" where
  "go_quot a b = sgn a * sgn b * (\<bar>a\<bar> div \<bar>b\<bar>)"

definition go_rem :: "int \<Rightarrow> int \<Rightarrow> int" where
  "go_rem a b = a - b * go_quot a b"

text \<open>
  \<^verbatim>\<open>ErrorCodeAttribute.AddTo\<close>. The buffer \<^verbatim>\<open>value\<close> is made with length 0 and capacity
  \<^verbatim>\<open>errorCodeReasonMaxB\<close>; the reslice \<^verbatim>\<open>value[:errorCodeReasonStart+len(c.Reason)]\<close>
  panics in Go when the new length exceeds that capacity. The two leading bytes stay zero,
  \<^verbatim>\<open>byte(x)\<close> keeps the low 8 bits.
\<close>

definition ErrorCodeAttribute_AddTo :: "ErrorCodeAttribute \<Rightarrow> Message \<Rightarrow> Message result" where
  "ErrorCodeAttribute_AddTo c m =
     (if length (Reason c) > errorCodeReasonMaxB then
        Err (AttrOverflowErr AttrErrorCode
               (length (Reason c) + errorCodeReasonStart)
               (errorCodeReasonMaxB + errorCodeReasonStart))
      else if errorCodeReasonStart + length (Reason c) > errorCodeReasonMaxB then
        Panic ''slice bounds out of range''
      else
        let number = (word_of_int (go_rem (Code c) errorCodeModulo) :: byte);
            class = (word_of_int (go_quot (Code c) errorCodeModulo) :: byte);
            value = [0, 0, class, number] @ Reason c
        in Ok (Add AttrErrorCode value m))"

text \<open>\<^verbatim>\<open>ErrorCodeAttribute.GetFrom\<close>; the sum is computed in \<^verbatim>\<open>uint16\<close>.\<close>

definition ErrorCodeAttribute_GetFrom :: "Message \<Rightarrow> ErrorCodeAttribute result" where
  "ErrorCodeAttribute_GetFrom m =
     (case Get AttrErrorCode m of
        Err e \<Rightarrow> Err e
      | Panic s \<Rightarrow> Panic s
      | Ok v \<Rightarrow>
          if length v < errorCodeReasonStart then Err ErrUnexpectedEOF
          else
            let class = (ucast (v ! errorCodeClassByte) :: 16 word);
                number = (ucast (v ! errorCodeNumberByte) :: 16 word);
                code = uint (class * 100 + number)
            in Ok \<lparr>Code = code, Reason = drop errorCodeReasonStart v\<rparr>)"

text \<open>The error codes as the source declares them.\<close>

definition CodeTryAlternate :: ErrorCode where "CodeTryAlternate = 300"
definition CodeBadRequest :: ErrorCode where "CodeBadRequest = 400"
definition CodeUnauthorised :: ErrorCode where "CodeUnauthorised = 401"
definition CodeUnknownAttribute :: ErrorCode where "CodeUnknownAttribute = 420"
definition CodeStaleNonce :: ErrorCode where "CodeStaleNonce = 428"
definition CodeRoleConflict :: ErrorCode where "CodeRoleConflict = 478"
definition CodeServerError :: ErrorCode where "CodeServerError = 500"

section \<open>RESERVATION-TOKEN (turn/rsrvtoken.go)\<close>

definition reservationTokenSize :: nat where "reservationTokenSize = 8"

definition ReservationToken_AddTo :: "bytes \<Rightarrow> Message \<Rightarrow> Message result" where
  "ReservationToken_AddTo t m =
     (if length t \<noteq> reservationTokenSize then
        Err (BadAttrLength AttrReservationToken reservationTokenSize (length t))
      else Ok (Add AttrReservationToken t m))"

definition ReservationToken_GetFrom :: "Message \<Rightarrow> bytes result" where
  "ReservationToken_GetFrom m =
     (case Get AttrReservationToken m of
        Err e \<Rightarrow> Err e
      | Panic s \<Rightarrow> Panic s
      | Ok v \<Rightarrow>
          if length v \<noteq> reservationTokenSize then
            Err (BadAttrLength AttrReservationToken reservationTokenSize (length v))
          else Ok v)"

section \<open>The transaction agent (package stun, agent.go)\<close>

text \<open>
  A \<^verbatim>\<open>time.Time\<close> is an integer instant; \<^verbatim>\<open>Before\<close> is \<open><\<close>. A \<^verbatim>\<open>Handler\<close> is an
  opaque value the agent only stores and invokes, here a number. The Go map
  \<^verbatim>\<open>transactions\<close> is an association list (insertion at a new key appends); Go iterates a
  map in an unspecified order, and the list order stands for one such order.
\<close>

type_synonym Time = int
type_synonym Handler = nat

text \<open>\<^verbatim>\<open>Event\<close>: the fields \<^verbatim>\<open>Message\<close> and \<^verbatim>\<open>Error\<close>, either may be nil.\<close>

record Event =
  EventMessage :: "Message option"
  EventError :: "error option"

text \<open>\<^verbatim>\<open>agentTransaction\<close> with its fields \<^verbatim>\<open>id\<close>, \<^verbatim>\<open>deadline\<close> and \<^verbatim>\<open>h\<close>.\<close>

record agentTransaction =
  id_tx :: TransactionID
  deadline :: Time
  h_tx :: Handler

record Agent =
  transactions :: "(TransactionID \<times> agentTransaction) list"
  closed :: bool
  zeroHandler :: "Handler option"

text \<open>
  Every invocation \<^verbatim>\<open>HandleEvent(e)\<close> is recorded, in order, with the call site: the handler
  of a registered transaction (\<^verbatim>\<open>t.h\<close>) or the agent's default handler.
\<close>

datatype call = TxCall agentTransaction Event | ZeroCall Handler Event

definition NewAgent :: "Handler option \<Rightarrow> Agent" where
  "NewAgent o_Handler = \<lparr>transactions = [], closed = False, zeroHandler = o_Handler\<rparr>"

definition StopWithError :: "Agent \<Rightarrow> TransactionID \<Rightarrow> error \<Rightarrow> Agent \<times> call list \<times> error option" where
  "StopWithError a i err =
     (if closed a then (a, [], Some ErrAgentClosed)
      else
        let t = map_of (transactions a) i;
            a' = a\<lparr>transactions := AList.delete i (transactions a)\<rparr>
        in case t of
             None \<Rightarrow> (a', [], Some ErrTransactionNotExists)
           | Some tx \<Rightarrow> (a', [TxCall tx \<lparr>EventMessage = None, EventError = Some err\<rparr>], None))"

definition Stop :: "Agent \<Rightarrow> TransactionID \<Rightarrow> Agent \<times> call list \<times> error option" where
  "Stop a i = StopWithError a i ErrTransactionStopped"

definition Start :: "Agent \<Rightarrow> TransactionID \<Rightarrow> Time \<Rightarrow> Handler \<Rightarrow> Agent \<times> call list \<times> error option" where
  "Start a i d h =
     (if closed a then (a, [], Some ErrAgentClosed)
      else if map_of (transactions a) i \<noteq> None then (a, [], Some ErrTransactionExists)
      else (a\<lparr>transactions :=
               AList.update i \<lparr>id_tx = i, deadline = d, h_tx = h\<rparr> (transactions a)\<rparr>, [], None))"

definition Collect :: "Agent \<Rightarrow> Time \<Rightarrow> Agent \<times> call list \<times> error option" where
  "Collect a gcTime =
     (if closed a then (a, [], Some ErrAgentClosed)
      else
        let expired = filter (\<lambda>p. deadline (snd p) < gcTime) (transactions a);
            toRemove = map fst expired;
            toCall = map snd expired;
            a' = a\<lparr>transactions := fold AList.delete toRemove (transactions a)\<rparr>;
            event = \<lparr>EventMessage = None, EventError = Some ErrTransactionTimeOut\<rparr>
        in (a', map (\<lambda>t. TxCall t event) toCall, None))"

definition Process :: "Agent \<Rightarrow> Message \<Rightarrow> Agent \<times> call list \<times> error option" where
  "Process a m =
     (let e = \<lparr>EventMessage = Some m, EventError = None\<rparr> in
      if closed a then (a, [], Some ErrAgentClosed)
      else
        let t = map_of (transactions a) (TransactionID m);
            a' = a\<lparr>transactions := AList.delete (TransactionID m) (transactions a)\<rparr>
        in case t of
             Some tx \<Rightarrow> (a', [TxCall tx e], None)
           | None \<Rightarrow>
               (case zeroHandler a of
                  Some z \<Rightarrow> (a', [ZeroCall z e], None)
                | None \<Rightarrow> (a', [], None)))"

definition Close :: "Agent \<Rightarrow> Agent \<times> call list \<times> error option" where
  "Close a =
     (let e = \<lparr>EventMessage = None, EventError = Some ErrAgentClosed\<rparr> in
      if closed a then (a, [], Some ErrAgentClosed)
      else (a\<lparr>transactions := [], closed := True, zeroHandler := None\<rparr>,
            map (\<lambda>p. TxCall (snd p) e) (transactions a), None))"

text \<open>
  A client of the agent performs a sequence of these operations. Every operation takes the
  mutex for its map accesses and deregisters before it invokes, so operations are run one
  after the other.
\<close>

datatype agent_op =
  OpStart TransactionID Time Handler
  | OpProcess Message
  | OpStop TransactionID error
  | OpCollect Time
  | OpClose

fun agent_step :: "Agent \<Rightarrow> agent_op \<Rightarrow> Agent \<times> call list \<times> error option" where
  "agent_step a (OpStart i d h) = Start a i d h"
| "agent_step a (OpProcess m) = Process a m"
| "agent_step a (OpStop i err) = StopWithError a i err"
| "agent_step a (OpCollect t) = Collect a t"
| "agent_step a OpClose = Close a"

text \<open>The transaction an operation registered: a \<^verbatim>\<open>Start\<close> that returned nil.\<close>

definition started_by :: "agent_op \<Rightarrow> error option \<Rightarrow> agentTransaction list" where
  "started_by x r =
     (case (x, r) of
        (OpStart i d h, None) \<Rightarrow> [\<lparr>id_tx = i, deadline = d, h_tx = h\<rparr>]
      | _ \<Rightarrow> [])"

text \<open>
  \<open>agent_run\<close> gives the final agent, all handler invocations in order, the transactions
  whose \<^verbatim>\<open>Start\<close> returned nil, and the error of each operation.
\<close>

fun agent_run :: "Agent \<Rightarrow> agent_op list
    \<Rightarrow> Agent \<times> call list \<times> agentTransaction list \<times> error option list" where
  "agent_run a [] = (a, [], [], [])"
| "agent_run a (x # xs) =
     (case agent_step a x of (a', cs, r) \<Rightarrow>
        (case agent_run a' xs of (a'', cs', st, rs) \<Rightarrow>
           (a'', cs @ cs', started_by x r @ st, r # rs)))"

text \<open>
  How often the handler of transaction \<open>t\<close> was invoked, and whether \<open>t\<close> is still
  registered (1) or not (0).
\<close>

fun invoked :: "agentTransaction \<Rightarrow> call list \<Rightarrow> nat" where
  "invoked t [] = 0"
| "invoked t (TxCall t' e # cs) = (if t' = t then 1 else 0) + invoked t cs"
| "invoked t (ZeroCall z e # cs) = invoked t cs"

definition registered :: "Agent \<Rightarrow> agentTransaction \<Rightarrow> nat" where
  "registered a t = (if map_of (transactions a) (id_tx t) = Some t then 1 else 0)"


text \<open>
  The agent's map is well formed when no id occurs twice and every entry is stored under
  its own id; \<^verbatim>\<open>NewAgent\<close> and every operation keep it so.
\<close>

definition agent_ok :: "Agent \<Rightarrow> bool" where
  "agent_ok a = (distinct (map fst (transactions a))
                 \<and> list_all (\<lambda>p. id_tx (snd p) = fst p) (transactions a))"

section \<open>The STUN server-socket (package ice, stunServerSock)\<close>

text \<open>
  The socket's struct as a record. Go maps are association lists. Fields with short generic
  names carry a prefix: \<^verbatim>\<open>cachedResponse.msg\<close> is \<open>cr_msg\<close>, \<^verbatim>\<open>sendreq.data\<close> and
  \<^verbatim>\<open>sendreq.to\<close> are \<open>sr_data\<close> and \<open>sr_to\<close>, \<^verbatim>\<open>serverSockResponse.res\<close> and
  \<^verbatim>\<open>.from\<close> are \<open>rsp_res\<close> and \<open>rsp_from\<close>. A waiter channel is a handle (a number).
  The bounded channel \<^verbatim>\<open>sendchan\<close> is the queue of requests the write task has not taken
  yet; a send that would block until the write task makes room is an append. The channel is
  closed only by \<^verbatim>\<open>Close\<close>, after \<^verbatim>\<open>stoped\<close> is set. The field \<open>cb\<close> says whether the
  callback interface is non-nil; the calls made on it, and the sends and closes on waiter
  channels, are appended to \<open>effects\<close> in the order they happen.
\<close>

datatype serverSockMode = stageNegotiation | stunModeData | turnModeData

type_synonym chan = nat

record cachedResponse =
  cacheTime :: Time
  cr_msg :: Message

record sendreq =
  sr_data :: bytes
  sr_to :: string

record serverSockResponse =
  rsp_res :: Message
  rsp_from :: string

datatype effect =
  RecieveStunMessage string string Message
  | ReceiveData string string bytes
  | ChanSend chan serverSockResponse
  | ChanClose chan

record stunServerSock =
  Addr :: string
  mode :: serverSockMode
  cb :: bool
  channelNumber2Address :: "(int \<times> string) list"
  address2ChannelNumber :: "(string \<times> int) list"
  waiters :: "(TransactionID \<times> chan) list"
  syncMessageTimeout :: int
  Name :: string
  cachedResponse :: "(TransactionID \<times> cachedResponse) list"
  sendchan :: "sendreq list"
  stoped :: bool
  effects :: "effect list"

text \<open>\<^verbatim>\<open>newStunServerSock\<close>, once the listen has succeeded; 5 seconds in nanoseconds.\<close>

definition newStunServerSock :: "string \<Rightarrow> bool \<Rightarrow> string \<Rightarrow> stunServerSock" where
  "newStunServerSock bindAddr cb_set name =
     \<lparr>Addr = bindAddr, mode = stageNegotiation, cb = cb_set,
      channelNumber2Address = [], address2ChannelNumber = [], waiters = [],
      syncMessageTimeout = 5000000000, Name = name, cachedResponse = [],
      sendchan = [], stoped = False, effects = []\<rparr>"

definition dataReceived :: "stunServerSock \<Rightarrow> string \<Rightarrow> bytes \<Rightarrow> stunServerSock" where
  "dataReceived s peerAddr dat =
     (if cb s then s\<lparr>effects := effects s @ [ReceiveData (Addr s) peerAddr dat]\<rparr> else s)"

text \<open>\<^verbatim>\<open>stunServerSock.sendData\<close>; its error result is always nil.\<close>

definition sendData :: "stunServerSock \<Rightarrow> bytes \<Rightarrow> string \<Rightarrow> string \<Rightarrow> stunServerSock result" where
  "sendData s dat fromaddr toaddr =
     (if Addr s \<noteq> fromaddr then Panic ''each binding...''
      else if stoped s then Ok s
      else Ok (s\<lparr>sendchan := sendchan s @ [\<lparr>sr_data = dat, sr_to = toaddr\<rparr>]\<rparr>))"

text \<open>\<^verbatim>\<open>sendStunMessageAsync\<close>; \<open>now\<close> is the value of \<^verbatim>\<open>time.Now()\<close>.\<close>

definition sendStunMessageAsync ::
    "Time \<Rightarrow> stunServerSock \<Rightarrow> Message \<Rightarrow> string \<Rightarrow> string \<Rightarrow> stunServerSock result" where
  "sendStunMessageAsync now s m fromaddr toaddr =
     (let s1 = (if Class (Type m) = ClassSuccessResponse \<or> Class (Type m) = ClassErrorResponse
                then s\<lparr>cachedResponse :=
                        AList.update (TransactionID m) \<lparr>cacheTime = now, cr_msg = m\<rparr>
                          (cachedResponse s)\<rparr>
                else s)
      in sendData s1 (Raw m) fromaddr toaddr)"

text \<open>
  \<^verbatim>\<open>checkCachedResponse\<close>. The constant \<^verbatim>\<open>stunResponseCacheDuration\<close> is declared outside
  the source files and is the parameter \<open>ttl\<close>. The first loop deletes, for every entry
  whose time plus \<open>ttl\<close> is before \<open>now\<close>, the entry's key; the second loop takes an entry
  with the request's method and transaction id.
\<close>

definition evictExpired :: "int \<Rightarrow> Time
    \<Rightarrow> (TransactionID \<times> cachedResponse) list \<Rightarrow> (TransactionID \<times> cachedResponse) list" where
  "evictExpired ttl now cache =
     fold (\<lambda>p m. if cacheTime (snd p) + ttl < now then AList.delete (fst p) m else m) cache cache"

definition checkCachedResponse ::
    "int \<Rightarrow> Time \<Rightarrow> stunServerSock \<Rightarrow> Message \<Rightarrow> string \<Rightarrow> (stunServerSock \<times> bool) result" where
  "checkCachedResponse ttl now s req frm =
     (if length (cachedResponse s) \<le> 0 then Ok (s, False)
      else
        let s1 = s\<lparr>cachedResponse := evictExpired ttl now (cachedResponse s)\<rparr> in
        case find (\<lambda>p. Method (Type (cr_msg (snd p))) = Method (Type req)
                       \<and> TransactionID (cr_msg (snd p)) = TransactionID req)
                  (cachedResponse s1) of
          Some p \<Rightarrow>
            (case sendData s1 (Raw (cr_msg (snd p))) (Addr s1) frm of
               Ok s2 \<Rightarrow> Ok (s2, True)
             | Err e \<Rightarrow> Ok (s1, True)
             | Panic x \<Rightarrow> Panic x)
        | None \<Rightarrow> Ok (s1, False))"

definition addWaiter :: "stunServerSock \<Rightarrow> TransactionID \<Rightarrow> chan \<Rightarrow> stunServerSock result" where
  "addWaiter s key ch =
     (if map_of (waiters s) key \<noteq> None then Err errDuplicateWaiter
      else Ok (s\<lparr>waiters := AList.update key ch (waiters s)\<rparr>))"

definition getAndRemoveWaiter :: "stunServerSock \<Rightarrow> TransactionID \<Rightarrow> stunServerSock \<times> chan option" where
  "getAndRemoveWaiter s key =
     (case map_of (waiters s) key of
        Some ch \<Rightarrow> (s\<lparr>waiters := AList.delete key (waiters s)\<rparr>, Some ch)
      | None \<Rightarrow> (s, None))"

text \<open>
  \<^verbatim>\<open>stunMessageReceived\<close>. The decoder \<^verbatim>\<open>turn.ChannelData.GetFrom\<close> is not among the source
  files and is the parameter \<open>chanDataGetFrom\<close>, giving the channel number and the data,
  or \<open>None\<close> for its error (which is only logged).
  The pair \<open>(go, s1)\<close> is the outcome of the block for \<^verbatim>\<open>MethodChannelData\<close>: whether the
  function goes on after it, and the socket then.
\<close>

definition stunMessageReceived ::
    "(Message \<Rightarrow> (16 word \<times> bytes) option) \<Rightarrow> int \<Rightarrow> Time
     \<Rightarrow> stunServerSock \<Rightarrow> string \<Rightarrow> string \<Rightarrow> Message \<Rightarrow> stunServerSock result" where
  "stunMessageReceived chanDataGetFrom ttl now s localaddr frm m =
     (let (go, s1) =
        (if Method (Type m) = MethodChannelData then
           (case mode s of
              stageNegotiation \<Rightarrow> (False, s)
            | stunModeData \<Rightarrow> (False, dataReceived s frm (Raw m))
            | turnModeData \<Rightarrow>
                (case chanDataGetFrom m of
                   Some cd \<Rightarrow>
                     (case map_of (channelNumber2Address s) (uint (fst cd)) of
                        None \<Rightarrow> (False, s)
                      | Some peer \<Rightarrow> (True, dataReceived s peer (snd cd)))
                 | None \<Rightarrow> (False, s)))
         else (True, s))
      in
      if \<not> go then Ok s1
      else
        (case getAndRemoveWaiter s1 (TransactionID m) of
           (s2, Some ch) \<Rightarrow>
             Ok (s2\<lparr>effects := effects s2
                     @ [ChanSend ch \<lparr>rsp_res = m, rsp_from = frm\<rparr>, ChanClose ch]\<rparr>)
         | (s2, None) \<Rightarrow>
             (case checkCachedResponse ttl now s2 m frm of
                Ok (s3, True) \<Rightarrow> Ok s3
              | Ok (s3, False) \<Rightarrow>
                  Ok (if cb s3
                      then s3\<lparr>effects := effects s3 @ [RecieveStunMessage localaddr frm m]\<rparr>
                      else s3)
              | Err e \<Rightarrow> Err e
              | Panic x \<Rightarrow> Panic x)))"

text \<open>
  \<^verbatim>\<open>serveConn\<close> for a non-nil connection. \<open>rd\<close> is the outcome of \<^verbatim>\<open>c.ReadFrom\<close>, the bytes
  read and the sender's address or the error; \<open>decode\<close> is \<^verbatim>\<open>req.Write\<close> (not among
  the source files), \<open>None\<close> when it returns an error. A returned error is \<open>Err\<close>, the
  return of nil is \<open>Ok\<close> with the socket. The sender's address is the string both
  \<^verbatim>\<open>udpAddrToAddr(addr)\<close> and \<^verbatim>\<open>addr.String()\<close> give.
\<close>

definition serveConn ::
    "(bytes \<Rightarrow> Message option) \<Rightarrow> (Message \<Rightarrow> (16 word \<times> bytes) option) \<Rightarrow> int \<Rightarrow> Time
     \<Rightarrow> stunServerSock \<Rightarrow> (bytes \<times> string) result \<Rightarrow> stunServerSock result" where
  "serveConn decode chanDataGetFrom ttl now s rd =
     (case rd of
        Err e \<Rightarrow> Err e
      | Panic x \<Rightarrow> Panic x
      | Ok (raw, addr) \<Rightarrow>
          (case decode raw of
             None \<Rightarrow> Ok (dataReceived s addr raw)
           | Some req \<Rightarrow>
               if Type req = BindingIndication \<or> Type req = SendIndication then Ok s
               else stunMessageReceived chanDataGetFrom ttl now s (Addr s) addr req))"

text \<open>
  \<^verbatim>\<open>stunServerSock.Close\<close>: the loop takes every waiter out of the map and closes its
  channel.
\<close>

definition stunServerSock_Close :: "stunServerSock \<Rightarrow> stunServerSock" where
  "stunServerSock_Close s =
     fold (\<lambda>p s'. let s1 = fst (getAndRemoveWaiter s' (fst p))
                    in s1\<lparr>effects := effects s1 @ [ChanClose (snd p)]\<rparr>)
          (waiters s) (s\<lparr>stoped := True\<rparr>)"

text \<open>
  \<^verbatim>\<open>wait\<close> selects between the waiter channel and the timer. What the select observes is
  the parameter: a response sent on the channel, the channel closed, or the timer.
\<close>

datatype waitOutcome = Received serverSockResponse | ChanClosed | TimedOut

definition wait :: "stunServerSock \<Rightarrow> chan \<Rightarrow> waitOutcome \<Rightarrow> Message result" where
  "wait s ch outcome =
     (case outcome of
        Received r \<Rightarrow> Ok (rsp_res r)
      | ChanClosed \<Rightarrow> Err errWaiterClosed
      | TimedOut \<Rightarrow> Err errTimeout)"

text \<open>
  While a caller is blocked in \<^verbatim>\<open>wait\<close>, other tasks act on the socket, and the outcome of
  the select tells what they have done to the waiter: a response is sent on the channel
  only by \<^verbatim>\<open>stunMessageReceived\<close>, after \<^verbatim>\<open>getAndRemoveWaiter\<close> has taken the waiter out;
  a channel is closed without a response only by \<^verbatim>\<open>Close\<close>; when the timer fires nothing
  has touched the waiter.
\<close>

definition during_wait :: "stunServerSock \<Rightarrow> TransactionID \<Rightarrow> waitOutcome \<Rightarrow> stunServerSock" where
  "during_wait s key outcome =
     (case outcome of
        Received r \<Rightarrow> fst (getAndRemoveWaiter s key)
      | ChanClosed \<Rightarrow> stunServerSock_Close s
      | TimedOut \<Rightarrow> s)"

text \<open>
  \<^verbatim>\<open>sendStunMessageSync\<close>: the socket when the call returns and the pair \<^verbatim>\<open>(res, err)\<close> it
  returns. \<open>ch\<close> is the channel made by the call. The function itself never removes the
  waiter: \<^verbatim>\<open>defer s.getAndRemoveWaiter(msg.TransactionID)\<close> is commented out in the source.
\<close>

definition sendStunMessageSync ::
    "Time \<Rightarrow> stunServerSock \<Rightarrow> Message \<Rightarrow> string \<Rightarrow> string \<Rightarrow> chan \<Rightarrow> waitOutcome
     \<Rightarrow> (stunServerSock \<times> Message result) result" where
  "sendStunMessageSync now s m fromaddr toaddr ch outcome =
     (case addWaiter s (TransactionID m) ch of
        Err e \<Rightarrow> Ok (s, Err e)
      | Panic x \<Rightarrow> Panic x
      | Ok s1 \<Rightarrow>
          (case sendStunMessageAsync now s1 m fromaddr toaddr of
             Err e \<Rightarrow> Ok (s1, Err e)
           | Panic x \<Rightarrow> Panic x
           | Ok s2 \<Rightarrow> Ok (during_wait s2 (TransactionID m) outcome, wait s2 ch outcome)))"

definition SetChannelNumber :: "stunServerSock \<Rightarrow> int \<Rightarrow> string \<Rightarrow> stunServerSock" where
  "SetChannelNumber s channelNumber addr =
     s\<lparr>channelNumber2Address := AList.update channelNumber addr (channelNumber2Address s),
       address2ChannelNumber := AList.update addr channelNumber (address2ChannelNumber s)\<rparr>"

text \<open>
  The response cache is well formed when no id occurs twice and every response is stored
  under its own transaction id, as \<^verbatim>\<open>sendStunMessageAsync\<close> stores it.
\<close>

definition cache_ok :: "stunServerSock \<Rightarrow> bool" where
  "cache_ok s = (distinct (map fst (cachedResponse s))
                 \<and> list_all (\<lambda>p. TransactionID (cr_msg (snd p)) = fst p) (cachedResponse s))"


text \<open>
  Waiters are registered under the ids the socket's own requests draw at random
  (\<^verbatim>\<open>TransactionIDSetter\<close>); responses are cached under the ids of requests received from
  peers, and a received message whose id has a waiter is given to the waiter and answered
  by nobody. So no waiter is registered under the id of a cached response.
\<close>

definition sock_ok :: "stunServerSock \<Rightarrow> bool" where
  "sock_ok s = (cache_ok s
                \<and> list_all (\<lambda>w. map_of (cachedResponse s) (fst w) = None) (waiters s))"

text \<open>The socket once the entries cached more than \<open>ttl\<close> before \<open>now\<close> are deleted.\<close>

definition evicted :: "int \<Rightarrow> Time \<Rightarrow> stunServerSock \<Rightarrow> stunServerSock" where
  "evicted ttl now s =
     s\<lparr>cachedResponse := filter (\<lambda>q. \<not> cacheTime (snd q) + ttl < now) (cachedResponse s)\<rparr>"

text \<open>The socket once a request is handed to the write task, unless it is stopped.\<close>

definition enqueue :: "stunServerSock \<Rightarrow> bytes \<Rightarrow> string \<Rightarrow> stunServerSock" where
  "enqueue s dat toaddr =
     (if stoped s then s else s\<lparr>sendchan := sendchan s @ [\<lparr>sr_data = dat, sr_to = toaddr\<rparr>]\<rparr>)"

section \<open>The TURN server-socket (ice/turnserversock.go)\<close>

text \<open>
  The functions of packages \<^verbatim>\<open>stun\<close>, \<^verbatim>\<open>turn\<close> and \<^verbatim>\<open>net\<close> that the TURN socket calls are
  not among the source files. They are the fields of a record the modelled functions take
  as their first argument: \<open>MessageBuild\<close> is \<^verbatim>\<open>Message.Build\<close> applied to a new message
  (the message as the setters left it, and the error of the first setter that failed),
  \<open>Write\<close> is the decoder \<^verbatim>\<open>Message.Write\<close>, the others are named after the methods.
  A setter is the value passed to \<^verbatim>\<open>Build\<close>; \<^verbatim>\<open>TransactionIDSetter\<close> carries the random id
  it draws.
\<close>

record UDPAddr =
  IP :: bytes
  Port :: int

datatype Setter =
  TransactionIDSetter TransactionID
  | SetType MessageType
  | ChannelNumber int
  | PeerAddress UDPAddr
  | Username string
  | Realm string
  | Nonce string
  | Credentials bytes
  | Data bytes
  | Lifetime int
  | Fingerprint

record ChannelData =
  cd_ChannelNumber :: "16 word"
  cd_Data :: bytes

record library =
  MessageBuild :: "Setter list \<Rightarrow> Message \<times> error option"
  Write :: "bytes \<Rightarrow> Message option"
  ChannelData_AddTo :: "ChannelData \<Rightarrow> Message \<Rightarrow> Message result"
  ChannelData_GetFrom :: "Message \<Rightarrow> (16 word \<times> bytes) option"
  Data_GetFrom :: "Message \<Rightarrow> bytes result"
  PeerAddress_GetFrom :: "Message \<Rightarrow> UDPAddr result"
  addrToUDPAddr :: "string \<Rightarrow> UDPAddr"
  UDPAddr_String :: "UDPAddr \<Rightarrow> string"

text \<open>\<^verbatim>\<open>stun.Build\<close> returns a nil message with the error when a setter fails.\<close>

definition Build :: "library \<Rightarrow> Setter list \<Rightarrow> Message result" where
  "Build lib setters =
     (case MessageBuild lib setters of
        (m, None) \<Rightarrow> Ok m
      | (m, Some e) \<Rightarrow> Err e)"

text \<open>
  Modelled from the spec: \<^verbatim>\<open>turn.MinChannelNumber\<close> and \<^verbatim>\<open>turn.MaxChannelNumber\<close> are
  declared outside the source files; the spec (3) gives the channel range
  \<^verbatim>\<open>[0x4000, 0x7FFF]\<close>.
\<close>

definition MinChannelNumber :: int where "MinChannelNumber = 0x4000"
definition MaxChannelNumber :: int where "MaxChannelNumber = 0x7FFF"

record turnServerSockConfig =
  user :: string
  password :: string
  nonce :: string
  realm :: string
  credentials :: bytes
  lifetime :: int
  relayAddress :: string
  serverAddr :: string

text \<open>
  \<^verbatim>\<open>turnServerSock\<close>: \<open>ts_s\<close> is the embedded STUN socket \<^verbatim>\<open>ts.s\<close> (whose callback is
  the TURN socket itself), \<open>ts_cb\<close> says whether the callback to the session is non-nil,
  and the calls made on it are appended to \<open>ts_effects\<close>.
\<close>

record turnServerSock =
  ts_s :: stunServerSock
  ts_cfg :: turnServerSockConfig
  ts_cb :: bool
  ts_Name :: string
  ts_effects :: "effect list"

text \<open>
  \<^verbatim>\<open>turnServerSock.RecieveStunMessage\<close>. The condition of the innermost \<^verbatim>\<open>if\<close> is the
  source's, with its two \<^verbatim>\<open>!=\<close>. The call \<^verbatim>\<open>ts.s.stunMessageReceived\<close> runs on the embedded
  socket; the callbacks it makes in turn stay recorded in that socket's \<open>effects\<close>.
\<close>

definition ts_RecieveStunMessage ::
    "library \<Rightarrow> int \<Rightarrow> Time \<Rightarrow> turnServerSock \<Rightarrow> string \<Rightarrow> string \<Rightarrow> Message
     \<Rightarrow> turnServerSock result" where
  "ts_RecieveStunMessage lib ttl now ts localAddr remoteAddr m =
     (if Type m = DataIndication then
        if remoteAddr \<noteq> serverAddr (ts_cfg ts) then Panic ''data indication from unkown address''
        else
          (case Data_GetFrom lib m of
             Err e \<Rightarrow> Panic ''unexpected message..''
           | Panic x \<Rightarrow> Panic x
           | Ok dat \<Rightarrow>
               if length dat \<le> 0 then Panic ''unexpected message..''
               else
                 (case PeerAddress_GetFrom lib m of
                    Err e \<Rightarrow> Panic ''unexpected message..''
                  | Panic x \<Rightarrow> Panic x
                  | Ok peer \<Rightarrow>
                      (case Write lib dat of
                         None \<Rightarrow>
                           Ok (if ts_cb ts
                               then ts\<lparr>ts_effects := ts_effects ts
                                       @ [ReceiveData localAddr (UDPAddr_String lib peer) dat]\<rparr>
                               else ts)
                       | Some res \<Rightarrow>
                           if Method (Type res) = MethodChannelData then
                             Ok (if ts_cb ts
                                 then ts\<lparr>ts_effects := ts_effects ts
                                         @ [ReceiveData localAddr (UDPAddr_String lib peer) dat]\<rparr>
                                 else ts)
                           else if Type res = BindingSuccess \<or> Type res \<noteq> BindingError
                                   \<or> Type res \<noteq> BindingRequest then
                             (case stunMessageReceived (ChannelData_GetFrom lib) ttl now (ts_s ts)
                                     (relayAddress (ts_cfg ts)) (UDPAddr_String lib peer) res of
                                Ok s' \<Rightarrow> Ok (ts\<lparr>ts_s := s'\<rparr>)
                              | Err e \<Rightarrow> Err e
                              | Panic x \<Rightarrow> Panic x)
                           else Panic ''data indication must carry bind response'')))
      else
        Ok (if ts_cb ts
            then ts\<lparr>ts_effects := ts_effects ts @ [RecieveStunMessage localAddr remoteAddr m]\<rparr>
            else ts))"

text \<open>\<^verbatim>\<open>wrapperStunMessage\<close>; the error of \<^verbatim>\<open>msg2.Build\<close> is not looked at.\<close>

definition wrapperStunMessage ::
    "library \<Rightarrow> TransactionID \<Rightarrow> turnServerSock \<Rightarrow> string \<Rightarrow> string \<Rightarrow> Message
     \<Rightarrow> (Message \<times> string \<times> string) result" where
  "wrapperStunMessage lib tid ts fromaddr toaddr m =
     (if fromaddr = Addr (ts_s ts) then Ok (m, fromaddr, toaddr)
      else if fromaddr \<noteq> relayAddress (ts_cfg ts) then Panic ''sendData from unkonw address..''
      else
        let peer = addrToUDPAddr lib toaddr;
            msg2 = fst (MessageBuild lib
                     [TransactionIDSetter tid, SetType SendIndication, PeerAddress peer,
                      Data (Raw m), Fingerprint])
        in Ok (msg2, Addr (ts_s ts), serverAddr (ts_cfg ts)))"

definition ts_sendStunMessageAsync ::
    "library \<Rightarrow> TransactionID \<Rightarrow> Time \<Rightarrow> turnServerSock \<Rightarrow> Message \<Rightarrow> string \<Rightarrow> string
     \<Rightarrow> turnServerSock result" where
  "ts_sendStunMessageAsync lib tid now ts m fromaddr toaddr =
     (case wrapperStunMessage lib tid ts fromaddr toaddr m of
        Err e \<Rightarrow> Err e
      | Panic x \<Rightarrow> Panic x
      | Ok (msg2, fromaddr2, toaddr2) \<Rightarrow>
          (case sendStunMessageAsync now (ts_s ts) msg2 fromaddr2 toaddr2 of
             Ok s' \<Rightarrow> Ok (ts\<lparr>ts_s := s'\<rparr>)
           | Err e \<Rightarrow> Err e
           | Panic x \<Rightarrow> Panic x))"

text \<open>
  \<^verbatim>\<open>turnServerSock.sendStunMessageSync\<close>; here too the deferred removal of the waiter is
  commented out.
\<close>

definition ts_sendStunMessageSync ::
    "library \<Rightarrow> TransactionID \<Rightarrow> Time \<Rightarrow> turnServerSock \<Rightarrow> Message \<Rightarrow> string \<Rightarrow> string
     \<Rightarrow> chan \<Rightarrow> waitOutcome \<Rightarrow> (turnServerSock \<times> Message result) result" where
  "ts_sendStunMessageSync lib tid now ts m fromaddr toaddr ch outcome =
     (case addWaiter (ts_s ts) (TransactionID m) ch of
        Err e \<Rightarrow> Ok (ts, Err e)
      | Panic x \<Rightarrow> Panic x
      | Ok s1 \<Rightarrow>
          (case wrapperStunMessage lib tid (ts\<lparr>ts_s := s1\<rparr>) fromaddr toaddr m of
             Err e \<Rightarrow> Err e
           | Panic x \<Rightarrow> Panic x
           | Ok (msg2, fromaddr2, toaddr2) \<Rightarrow>
               (case sendStunMessageAsync now s1 msg2 fromaddr2 toaddr2 of
                  Err e \<Rightarrow> Ok (ts\<lparr>ts_s := s1\<rparr>, Err e)
                | Panic x \<Rightarrow> Panic x
                | Ok s2 \<Rightarrow>
                    Ok (ts\<lparr>ts_s := during_wait s2 (TransactionID m) outcome\<rparr>,
                        wait s2 ch outcome))))"

text \<open>
  \<^verbatim>\<open>turnServerSock.sendData\<close>. A Go map read of a missing key gives 0. The error of
  \<^verbatim>\<open>stun.Build(turn.ChannelDataRequest)\<close> is dropped and the message used; a nil message
  there is a panic of the next call. The results of the sends in the relayed branch are
  dropped and nil is returned.
\<close>

definition ts_sendData ::
    "library \<Rightarrow> TransactionID \<Rightarrow> Time \<Rightarrow> turnServerSock \<Rightarrow> bytes \<Rightarrow> string \<Rightarrow> string
     \<Rightarrow> turnServerSock result" where
  "ts_sendData lib tid now ts dat fromaddr toaddr =
     (if fromaddr = relayAddress (ts_cfg ts) then
        let number = (case map_of (address2ChannelNumber (ts_s ts)) toaddr of
                        None \<Rightarrow> 0 | Some n \<Rightarrow> n)
        in
        if number \<ge> MinChannelNumber \<and> number \<le> MaxChannelNumber then
          let wdata = \<lparr>cd_ChannelNumber = word_of_int number, cd_Data = dat\<rparr> in
          (case Build lib [SetType ChannelDataRequest] of
             Ok r0 \<Rightarrow>
               (case ChannelData_AddTo lib wdata r0 of
                  Ok r \<Rightarrow>
                    (case sendData (ts_s ts) (Raw r) (Addr (ts_s ts)) (serverAddr (ts_cfg ts)) of
                       Ok s' \<Rightarrow> Ok (ts\<lparr>ts_s := s'\<rparr>)
                     | Err e \<Rightarrow> Ok ts
                     | Panic x \<Rightarrow> Panic x)
                | Err e \<Rightarrow> Panic ''turn.channeldata error''
                | Panic x \<Rightarrow> Panic x)
           | Err e \<Rightarrow> Panic ''nil message''
           | Panic x \<Rightarrow> Panic x)
        else
          let peer = addrToUDPAddr lib toaddr in
          (case Build lib [TransactionIDSetter tid, SetType SendIndication, Data dat,
                           PeerAddress peer, Fingerprint] of
             Ok r \<Rightarrow>
               (case sendStunMessageAsync now (ts_s ts) r (Addr (ts_s ts))
                       (serverAddr (ts_cfg ts)) of
                  Ok s' \<Rightarrow> Ok (ts\<lparr>ts_s := s'\<rparr>)
                | Err e \<Rightarrow> Ok ts
                | Panic x \<Rightarrow> Panic x)
           | Err e \<Rightarrow> Panic ''build error''
           | Panic x \<Rightarrow> Panic x)
      else
        (case sendData (ts_s ts) dat fromaddr toaddr of
           Ok s' \<Rightarrow> Ok (ts\<lparr>ts_s := s'\<rparr>)
         | Err e \<Rightarrow> Err e
         | Panic x \<Rightarrow> Panic x))"

text \<open>
  \<^verbatim>\<open>channelBind\<close>. \<open>channelBindSetters\<close> is the argument list of its \<^verbatim>\<open>stun.Build\<close>. The
  result is the socket and the returned error (nil is \<open>None\<close>). The test of the response
  is the source's, a conjunction of two inequalities.
\<close>

definition channelBindSetters :: "library \<Rightarrow> TransactionID \<Rightarrow> turnServerSock \<Rightarrow> string \<Rightarrow> Setter list" where
  "channelBindSetters lib tid ts addr =
     [TransactionIDSetter tid, SetType ChannelBindRequest, ChannelNumber MinChannelNumber,
      PeerAddress (addrToUDPAddr lib addr), Username (user (ts_cfg ts)),
      Realm (realm (ts_cfg ts)), Nonce (nonce (ts_cfg ts)), Credentials (credentials (ts_cfg ts))]"

definition channelBind ::
    "library \<Rightarrow> TransactionID \<Rightarrow> Time \<Rightarrow> turnServerSock \<Rightarrow> string \<Rightarrow> chan \<Rightarrow> waitOutcome
     \<Rightarrow> (turnServerSock \<times> error option) result" where
  "channelBind lib tid now ts addr ch outcome =
     (case Build lib (channelBindSetters lib tid ts addr) of
        Err e \<Rightarrow> Panic ''....''
      | Panic x \<Rightarrow> Panic x
      | Ok req \<Rightarrow>
          (case sendStunMessageSync now (ts_s ts) req (Addr (ts_s ts)) (serverAddr (ts_cfg ts))
                  ch outcome of
             Err e \<Rightarrow> Err e
           | Panic x \<Rightarrow> Panic x
           | Ok (s', Err e) \<Rightarrow> Ok (ts\<lparr>ts_s := s'\<rparr>, Some e)
           | Ok (s', Panic x) \<Rightarrow> Panic x
           | Ok (s', Ok res) \<Rightarrow>
               if Method (Type res) \<noteq> MethodChannelBind
                  \<and> Class (Type res) \<noteq> ClassSuccessResponse
               then Ok (ts\<lparr>ts_s := s'\<rparr>, Some errChannelBind)
               else Ok (ts\<lparr>ts_s := SetChannelNumber s' MinChannelNumber addr\<rparr>, None)))"

text \<open>
  A run of channel binds, one peer after the other, each with its transaction id, channel
  and the outcome of its wait; it stops at the first panic. The result lists the channel
  numbers of the requests that were built.
\<close>

fun channelNumbersOf :: "Setter list \<Rightarrow> int list" where
  "channelNumbersOf [] = []"
| "channelNumbersOf (ChannelNumber n # xs) = n # channelNumbersOf xs"
| "channelNumbersOf (x # xs) = channelNumbersOf xs"

fun channelBinds ::
    "library \<Rightarrow> Time \<Rightarrow> turnServerSock \<Rightarrow> (string \<times> TransactionID \<times> chan \<times> waitOutcome) list
     \<Rightarrow> (turnServerSock \<times> int list) result" where
  "channelBinds lib now ts [] = Ok (ts, [])"
| "channelBinds lib now ts ((addr, tid, ch, outcome) # rest) =
     (case channelBind lib tid now ts addr ch outcome of
        Ok (ts', e) \<Rightarrow>
          (case channelBinds lib now ts' rest of
             Ok (ts'', ns) \<Rightarrow>
               Ok (ts'', channelNumbersOf (channelBindSetters lib tid ts addr) @ ns)
           | Err e' \<Rightarrow> Err e'
           | Panic x \<Rightarrow> Panic x)
      | Err e \<Rightarrow> Err e
      | Panic x \<Rightarrow> Panic x)"


section \<open>The STUN-only candidate gatherer (ice/stunsock.go)\<close>

text \<open>
  \<^verbatim>\<open>Candidate\<close> is declared outside the source files; the record has the fields
  \<^verbatim>\<open>GetCandidates\<close> sets (\<^verbatim>\<open>Type\<close> is \<open>cand_Type\<close>), and \<^verbatim>\<open>new(Candidate)\<close> leaves every
  other field zero. The candidate types are the four of the spec (3).
\<close>

datatype CandidateType =
  CandidateHost | CandidateServerReflexive | CandidatePeerReflexive | CandidateRelay

record Candidate =
  baseAddr :: string
  cand_Type :: CandidateType
  addr :: string
  Foundation :: string

record stunSocket =
  ServerAddr :: string
  MappedAddr :: UDPAddr
  LocalAddr :: string
  ReadDeadline :: int
  localAddrs :: "string list"

text \<open>
  The functions \<^verbatim>\<open>GetCandidates\<close> and \<^verbatim>\<open>mapAddress\<close> call that are not among the source
  files: the decoders of XOR-MAPPED-ADDRESS and MAPPED-ADDRESS, \<^verbatim>\<open>net.UDPAddr.String\<close>,
  \<^verbatim>\<open>calcFoundation\<close> and \<^verbatim>\<open>getLocalCandidates\<close>.
\<close>

record gatherlib =
  XORMappedAddress_GetFrom :: "Message \<Rightarrow> UDPAddr result"
  MappedAddress_GetFrom :: "Message \<Rightarrow> UDPAddr result"
  MappedAddr_String :: "UDPAddr \<Rightarrow> string"
  calcFoundation :: "string \<Rightarrow> string"
  getLocalCandidates :: "string \<Rightarrow> Candidate list result"

text \<open>
  The callback \<^verbatim>\<open>mapAddress\<close> passes to \<^verbatim>\<open>Client.Do\<close>: the value it leaves in the captured
  variable \<^verbatim>\<open>err\<close>, and the socket. An event with neither error nor message makes the
  decoder read a nil message.
\<close>

definition mapAddress_callback ::
    "gatherlib \<Rightarrow> stunSocket \<Rightarrow> Event \<Rightarrow> (stunSocket \<times> error option) result" where
  "mapAddress_callback lib s ev =
     (case EventError ev of
        Some e \<Rightarrow> Ok (s, Some e)
      | None \<Rightarrow>
          (case EventMessage ev of
             None \<Rightarrow> Panic ''nil message''
           | Some m \<Rightarrow>
               (case XORMappedAddress_GetFrom lib m of
                  Ok xorAddr \<Rightarrow> Ok (s\<lparr>MappedAddr := xorAddr\<rparr>, None)
                | Panic x \<Rightarrow> Panic x
                | Err e1 \<Rightarrow>
                    (case MappedAddress_GetFrom lib m of
                       Ok a \<Rightarrow> Ok (s\<lparr>MappedAddr := a\<rparr>, None)
                     | Err e \<Rightarrow> Ok (s, Some e)
                     | Panic x \<Rightarrow> Panic x))))"

text \<open>
  \<^verbatim>\<open>mapAddress\<close>. \<^verbatim>\<open>Client.Do\<close> is not among the source files; what it does is given by
  three parameters: the event it hands to the callback (\<open>None\<close> when it never calls it, and
  then \<^verbatim>\<open>wg.Wait()\<close> does not return: the result \<open>None\<close>), the error it returns, and
  whether the callback has run before \<^verbatim>\<open>Do\<close> returns, in which case the assignment
  \<^verbatim>\<open>err = s.Client.Do(...)\<close> overwrites what the callback stored in \<^verbatim>\<open>err\<close>.
\<close>

definition mapAddress ::
    "gatherlib \<Rightarrow> stunSocket \<Rightarrow> Event option \<Rightarrow> error option \<Rightarrow> bool
     \<Rightarrow> (stunSocket \<times> error option) result option" where
  "mapAddress lib s do_event do_ret callback_first =
     (case do_event of
        None \<Rightarrow> None
      | Some ev \<Rightarrow>
          Some (case mapAddress_callback lib s ev of
                  Ok (s', cb_err) \<Rightarrow> Ok (s', if callback_first then do_ret else cb_err)
                | Err e \<Rightarrow> Err e
                | Panic x \<Rightarrow> Panic x))"

text \<open>\<^verbatim>\<open>GetCandidates\<close>: the socket and the pair \<^verbatim>\<open>(candidates, err)\<close>, error first.\<close>

definition GetCandidates ::
    "gatherlib \<Rightarrow> stunSocket \<Rightarrow> Event option \<Rightarrow> error option \<Rightarrow> bool
     \<Rightarrow> (stunSocket \<times> Candidate list result) result option" where
  "GetCandidates lib s do_event do_ret callback_first =
     (case mapAddress lib s do_event do_ret callback_first of
        None \<Rightarrow> None
      | Some (Panic x) \<Rightarrow> Some (Panic x)
      | Some (Err e) \<Rightarrow> Some (Err e)
      | Some (Ok (s1, Some e)) \<Rightarrow> Some (Ok (s1, Err e))
      | Some (Ok (s1, None)) \<Rightarrow>
          let c = \<lparr>baseAddr = LocalAddr s1, cand_Type = CandidateServerReflexive,
                   addr = MappedAddr_String lib (MappedAddr s1),
                   Foundation = calcFoundation lib (LocalAddr s1)\<rparr>
          in
          (case getLocalCandidates lib (baseAddr c) of
             Err e \<Rightarrow> Some (Ok (s1, Err e))
           | Panic x \<Rightarrow> Some (Panic x)
           | Ok candidates \<Rightarrow>
               let s2 = s1\<lparr>localAddrs := localAddrs s1 @ map addr candidates\<rparr> in
               if addr c \<noteq> baseAddr c then Some (Ok (s2, Ok (candidates @ [c])))
               else Some (Ok (s2, Ok candidates))))"


text \<open>
  The mapped address a Binding response reports: XOR-MAPPED-ADDRESS when it decodes,
  MAPPED-ADDRESS otherwise.
\<close>

definition reportedAddr :: "gatherlib \<Rightarrow> Message \<Rightarrow> UDPAddr option" where
  "reportedAddr lib m =
     (case XORMappedAddress_GetFrom lib m of
        Ok a \<Rightarrow> Some a
      | Panic x \<Rightarrow> None
      | Err e1 \<Rightarrow>
          (case MappedAddress_GetFrom lib m of
             Ok a \<Rightarrow> Some a
           | Err e \<Rightarrow> None
           | Panic x \<Rightarrow> None))"

section \<open>Concrete inputs\<close>

text \<open>
  A small instance of the library record, to run the modelled functions on concrete
  inputs: its \<open>MessageBuild\<close> sets the type and the transaction id and adds DATA and the
  peer address (address bytes, then the port) as attributes, every other setter leaves the
  message as it is; its decoder accepts nothing; \<open>Data_GetFrom\<close> reads the DATA attribute.
\<close>

fun applySetter :: "Message \<Rightarrow> Setter \<Rightarrow> Message" where
  "applySetter m (TransactionIDSetter t) = m\<lparr>TransactionID := t\<rparr>"
| "applySetter m (SetType ty) = m\<lparr>Type := ty\<rparr>"
| "applySetter m (Data d) = Add AttrData d m"
| "applySetter m (PeerAddress a) = Add AttrXORPeerAddress (IP a @ be16 (nat (Port a))) m"
| "applySetter m x = m"

definition newMessage :: Message where
  "newMessage = \<lparr>Type = BindingRequest, TransactionID = 0, Attributes = [], Raw = []\<rparr>"

definition refLib :: library where
  "refLib =
     \<lparr>MessageBuild = (\<lambda>setters. (foldl applySetter newMessage setters, None)),
      Write = (\<lambda>b. None),
      ChannelData_AddTo = (\<lambda>cd m. Ok (m\<lparr>Raw := be16 (unat (cd_ChannelNumber cd))
                                              @ be16 (length (cd_Data cd)) @ cd_Data cd\<rparr>)),
      ChannelData_GetFrom = (\<lambda>m. None),
      Data_GetFrom = Get AttrData,
      PeerAddress_GetFrom = (\<lambda>m. Err ErrAttributeNotFound),
      addrToUDPAddr = (\<lambda>a. \<lparr>IP = [10, 0, 0, 9], Port = 4000\<rparr>),
      UDPAddr_String = (\<lambda>a. ''10.0.0.9:4000'')\<rparr>"

definition sock0 :: stunServerSock where
  "sock0 = newStunServerSock ''10.0.0.1:5000'' True ''a''"

definition turn0 :: turnServerSock where
  "turn0 =
     \<lparr>ts_s = sock0,
      ts_cfg = \<lparr>user = ''u'', password = ''p'', nonce = ''n'', realm = ''r'', credentials = [],
                lifetime = 600, relayAddress = ''1.2.3.4:49152'', serverAddr = ''1.2.3.4:3478''\<rparr>,
      ts_cb = True, ts_Name = ''a'', ts_effects = []\<rparr>"

definition request7 :: Message where
  "request7 = \<lparr>Type = BindingRequest, TransactionID = 7, Attributes = [], Raw = [0, 1]\<rparr>"

definition response7 :: Message where
  "response7 = \<lparr>Type = BindingSuccess, TransactionID = 7, Attributes = [], Raw = [1, 1]\<rparr>"

text \<open>
  The socket after it has answered a request with \<open>response7\<close> at time 100.
\<close>

definition sockCached :: stunServerSock where
  "sockCached =
     sock0\<lparr>cachedResponse := [(7, \<lparr>cacheTime = 100, cr_msg = response7\<rparr>)],
           sendchan := [\<lparr>sr_data = [1, 1], sr_to = ''10.0.0.2:6000''\<rparr>]\<rparr>"

text \<open>Two transactions, a response to the first, and an agent that has started both.\<close>

definition tx1 :: agentTransaction where
  "tx1 = \<lparr>id_tx = 1, deadline = 10, h_tx = 7\<rparr>"

definition tx2 :: agentTransaction where
  "tx2 = \<lparr>id_tx = 2, deadline = 20, h_tx = 8\<rparr>"

definition msg1 :: Message where
  "msg1 = \<lparr>Type = BindingSuccess, TransactionID = 1, Attributes = [], Raw = []\<rparr>"

definition agentOpen :: Agent where
  "agentOpen = \<lparr>transactions = [(1, tx1), (2, tx2)], closed = False, zeroHandler = None\<rparr>"

definition agentClosed :: Agent where
  "agentClosed = \<lparr>transactions = [], closed = True, zeroHandler = None\<rparr>"

text \<open>The event of a Binding transaction that timed out.\<close>

definition timeoutEvent :: Event where
  "timeoutEvent = \<lparr>EventMessage = None, EventError = Some ErrTransactionTimeOut\<rparr>"

text \<open>
  The TURN socket after two channel binds, to \<^verbatim>\<open>10.0.0.2:6000\<close> and then to
  \<^verbatim>\<open>10.0.0.3:7000\<close>, and the bytes of the two requests as \<open>refLib\<close> builds them.
\<close>

definition bindRaw :: bytes where
  "bindRaw = [0, 18, 0, 6, 10, 0, 0, 9, 15, 160, 0, 0]"

definition bindSuccess :: "TransactionID \<Rightarrow> serverSockResponse" where
  "bindSuccess t =
     \<lparr>rsp_res = \<lparr>Type = \<lparr>Method = MethodChannelBind, Class = ClassSuccessResponse\<rparr>,
                  TransactionID = t, Attributes = [], Raw = []\<rparr>,
      rsp_from = ''1.2.3.4:3478''\<rparr>"

definition turnBound :: turnServerSock where
  "turnBound =
     turn0\<lparr>ts_s := sock0
       \<lparr>channelNumber2Address := [(0x4000, ''10.0.0.3:7000'')],
        address2ChannelNumber := [(''10.0.0.2:6000'', 0x4000), (''10.0.0.3:7000'', 0x4000)],
        sendchan := [\<lparr>sr_data = bindRaw, sr_to = ''1.2.3.4:3478''\<rparr>,
                     \<lparr>sr_data = bindRaw, sr_to = ''1.2.3.4:3478''\<rparr>]\<rparr>\<rparr>"

text \<open>
  An instance of the gatherer's library: every Binding response reports \<^verbatim>\<open>1.2.3.4:5000\<close>,
  the mapped address prints as the given string, and the only host candidate is the base
  address.
\<close>

definition gatherLib :: "string \<Rightarrow> gatherlib" where
  "gatherLib printed =
     \<lparr>XORMappedAddress_GetFrom = (\<lambda>m. Ok \<lparr>IP = [1, 2, 3, 4], Port = 5000\<rparr>),
      MappedAddress_GetFrom = (\<lambda>m. Err ErrAttributeNotFound),
      MappedAddr_String = (\<lambda>a. printed),
      calcFoundation = (\<lambda>b. ''f''),
      getLocalCandidates = (\<lambda>b. Ok [\<lparr>baseAddr = b, cand_Type = CandidateHost, addr = b,
                                      Foundation = ''f''\<rparr>])\<rparr>"

definition stunSocket0 :: stunSocket where
  "stunSocket0 =
     \<lparr>ServerAddr = ''1.2.3.4:3478'', MappedAddr = \<lparr>IP = [], Port = 0\<rparr>,
      LocalAddr = ''192.168.1.5:4000'', ReadDeadline = 10000000000, localAddrs = []\<rparr>"

definition dataInd :: Message where
  "dataInd = \<lparr>Type = DataIndication, TransactionID = 9, Attributes = [], Raw = [0, 23]\<rparr>"


section \<open>The agent invokes every handler once\<close>

lemma invoked_append: "invoked t (cs @ cs') = invoked t cs + invoked t cs'"
  by (induction t cs rule: invoked.induct) auto

lemma invoked_map_TxCall: "invoked t (map (\<lambda>p. TxCall (snd p) e) ps) = count_list (map snd ps) t"
  by (induction ps) auto

lemma invoked_map_TxCall': "invoked t (map (\<lambda>t. TxCall t e) ts) = count_list ts t"
  by (induction ts) auto

lemma count_snd_ok:
  "distinct (map fst ps) \<Longrightarrow> list_all (\<lambda>p. id_tx (snd p) = fst p) ps
   \<Longrightarrow> count_list (map snd ps) t = (if map_of ps (id_tx t) = Some t then 1 else 0)"
proof (induction ps)
  case Nil
  then show ?case by simp
next
  case (Cons p ps)
  obtain k v where p: "p = (k, v)" by (cases p)
  from Cons.prems p have kv: "id_tx v = k" and nk: "k \<notin> fst ` set ps"
    and d: "distinct (map fst ps)" and l: "list_all (\<lambda>p. id_tx (snd p) = fst p) ps"
    by auto
  have ih: "count_list (map snd ps) t = (if map_of ps (id_tx t) = Some t then 1 else 0)"
    using Cons.IH d l by blast
  show ?case
  proof (cases "v = t")
    case True
    then have "map_of ps (id_tx t) = None" using nk kv
      by (simp add: map_of_eq_None_iff)
    then show ?thesis using True p kv ih by simp
  next
    case False
    have "k = id_tx t \<Longrightarrow> map_of ps (id_tx t) = None" using nk
      by (simp add: map_of_eq_None_iff)
    then show ?thesis using False p kv ih by auto
  qed
qed

lemma map_of_fold_delete:
  "map_of (fold AList.delete ks al) k = (if k \<in> set ks then None else map_of al k)"
  by (induction ks arbitrary: al) (auto simp: delete_conv')

lemma distinct_fold_delete:
  "distinct (map fst al) \<Longrightarrow> distinct (map fst (fold AList.delete ks al))"
  by (induction ks arbitrary: al) (auto simp: distinct_delete)

lemma list_all_delete:
  "list_all P al \<Longrightarrow> list_all P (AList.delete k al)"
  by (induction al) (auto simp: )

lemma list_all_fold_delete:
  "list_all P al \<Longrightarrow> list_all P (fold AList.delete ks al)"
  by (induction ks arbitrary: al) (auto simp: list_all_delete)

lemma list_all_update:
  "list_all P al \<Longrightarrow> P (k, v) \<Longrightarrow> list_all P (AList.update k v al)"
  by (induction al) auto

lemma agent_ok_step:
  "agent_ok a \<Longrightarrow> agent_step a x = (a', cs, r) \<Longrightarrow> agent_ok a'"
  by (cases x)
     (auto simp: agent_ok_def Start_def Process_def StopWithError_def Collect_def Close_def Let_def
        distinct_delete distinct_update list_all_delete list_all_update
        distinct_fold_delete list_all_fold_delete
        split: if_splits option.splits)


lemma registered_count:
  "agent_ok a \<Longrightarrow> registered a t = count_list (map snd (transactions a)) t"
  by (simp add: agent_ok_def registered_def count_snd_ok)

lemma agent_ok_key:
  "agent_ok a \<Longrightarrow> map_of (transactions a) k = Some t \<Longrightarrow> id_tx t = k"
  by (auto simp: agent_ok_def list_all_iff dest!: map_of_SomeD)

lemma map_of_filter_distinct:
  "distinct (map fst ps) \<Longrightarrow>
   map_of (filter P ps) k =
     (case map_of ps k of None \<Rightarrow> None | Some v \<Rightarrow> if P (k, v) then Some v else None)"
proof (induction ps)
  case Nil
  then show ?case by simp
next
  case (Cons p ps)
  obtain k' v' where p: "p = (k', v')" by (cases p)
  have nk: "map_of ps k' = None" using Cons.prems p by (simp add: map_of_eq_None_iff)
  show ?case using Cons p nk by (auto split: option.splits)
qed

lemma Start_count:
  assumes "agent_ok a" and "Start a i d h = (a', cs, r)"
  shows "invoked t cs + registered a' t
         = registered a t + count_list (started_by (OpStart i d h) r) t"
  using assms
  by (auto simp: Start_def registered_def started_by_def update_conv' split: if_splits)

lemma Process_count:
  assumes "agent_ok a" and "Process a m = (a', cs, r)"
  shows "invoked t cs + registered a' t = registered a t"
  using assms
  by (auto simp: Process_def registered_def Let_def delete_conv' dest: agent_ok_key
        split: if_splits option.splits)

lemma Stop_count:
  assumes "agent_ok a" and "StopWithError a i e = (a', cs, r)"
  shows "invoked t cs + registered a' t = registered a t"
  using assms
  by (auto simp: StopWithError_def registered_def Let_def delete_conv' dest: agent_ok_key
        split: if_splits option.splits)

lemma Close_count:
  assumes "agent_ok a" and "Close a = (a', cs, r)"
  shows "invoked t cs + registered a' t = registered a t"
proof (cases "closed a")
  case True
  then show ?thesis using assms by (auto simp: Close_def Let_def)
next
  case False
  then have "invoked t cs = count_list (map snd (transactions a)) t" and "registered a' t = 0"
    using assms(2) by (auto simp: Close_def Let_def invoked_map_TxCall registered_def)
  then show ?thesis using registered_count [OF assms(1)] by simp
qed

lemma Collect_count:
  assumes "agent_ok a" and "Collect a g = (a', cs, r)"
  shows "invoked t cs + registered a' t = registered a t"
proof (cases "closed a")
  case True
  then show ?thesis using assms by (auto simp: Collect_def Let_def)
next
  case False
  define ex where "ex = filter (\<lambda>p. deadline (snd p) < g) (transactions a)"
  have a': "transactions a' = fold AList.delete (map fst ex) (transactions a)"
    and cs: "cs = map (\<lambda>t. TxCall t \<lparr>EventMessage = None, EventError = Some ErrTransactionTimeOut\<rparr>) (map snd ex)"
    using assms(2) False by (auto simp: Collect_def Let_def ex_def)
  have d: "distinct (map fst ex)" and l: "list_all (\<lambda>p. id_tx (snd p) = fst p) ex"
    using assms(1) by (auto simp: agent_ok_def ex_def distinct_map_filter list_all_iff)
  have inv: "invoked t cs = (if map_of ex (id_tx t) = Some t then 1 else 0)"
    unfolding cs invoked_map_TxCall' using count_snd_ok [OF d l] .
  have dd: "distinct (map fst (transactions a))" using assms(1) by (simp add: agent_ok_def)
  have mex: "map_of ex k = (case map_of (transactions a) k of
                None \<Rightarrow> None | Some v \<Rightarrow> if deadline v < g then Some v else None)" for k
    unfolding ex_def using map_of_filter_distinct [OF dd, of "\<lambda>p. deadline (snd p) < g" k]
    by (simp split: option.splits)
  have rem: "map_of (transactions a') k = (if k \<in> fst ` set ex then None else map_of (transactions a) k)" for k
    unfolding a' by (simp add: map_of_fold_delete)
  have dom: "k \<in> fst ` set ex \<longleftrightarrow> map_of ex k \<noteq> None" for k
    by (simp add: map_of_eq_None_iff)
  show ?thesis
    unfolding inv registered_def rem dom mex
    by (auto split: option.splits)
qed

lemma step_count:
  assumes "agent_ok a" and "agent_step a x = (a', cs, r)"
  shows "invoked t cs + registered a' t = registered a t + count_list (started_by x r) t"
proof (cases x)
  case (OpStart i d h)
  then show ?thesis using assms Start_count by simp
next
  case (OpProcess m)
  then show ?thesis using assms Process_count by (simp add: started_by_def)
next
  case (OpStop i e)
  then show ?thesis using assms Stop_count by (simp add: started_by_def)
next
  case (OpCollect g)
  then show ?thesis using assms Collect_count by (simp add: started_by_def)
next
  case OpClose
  then show ?thesis using assms Close_count by (simp add: started_by_def)
qed

lemma run_count:
  "agent_ok a \<Longrightarrow> agent_run a ops = (a', cs, st, rs)
   \<Longrightarrow> invoked t cs + registered a' t = registered a t + count_list st t"
proof (induction ops arbitrary: a a' cs st rs)
  case Nil
  then show ?case by simp
next
  case (Cons x xs)
  obtain a1 c1 r1 where s1: "agent_step a x = (a1, c1, r1)" by (cases "agent_step a x")
  obtain a2 c2 st2 rs2 where s2: "agent_run a1 xs = (a2, c2, st2, rs2)"
    by (cases "agent_run a1 xs")
  have ok1: "agent_ok a1" using agent_ok_step [OF Cons.prems(1) s1] .
  have e: "a' = a2" "cs = c1 @ c2" "st = started_by x r1 @ st2"
    using Cons.prems(2) s1 s2 by (auto simp: started_by_def)
  have h1: "invoked t c1 + registered a1 t = registered a t + count_list (started_by x r1) t"
    using step_count [OF Cons.prems(1) s1] .
  have h2: "invoked t c2 + registered a2 t = registered a1 t + count_list st2 t"
    using Cons.IH [OF ok1 s2] .
  show ?case using h1 h2 by (simp add: e invoked_append)
qed

lemma closed_step:
  "closed a \<Longrightarrow> agent_step a x = (a, [], Some ErrAgentClosed)"
  by (cases x) (simp_all add: Start_def Process_def StopWithError_def Collect_def Close_def Let_def)

lemma closed_no_tx_step:
  "(closed a \<longrightarrow> transactions a = []) \<Longrightarrow> agent_step a x = (a', cs, r)
   \<Longrightarrow> (closed a' \<longrightarrow> transactions a' = [])"
  by (cases x)
     (auto simp: Start_def Process_def StopWithError_def Collect_def Close_def Let_def
        split: if_splits option.splits)

lemma closed_no_tx_run:
  "(closed a \<longrightarrow> transactions a = []) \<Longrightarrow> agent_run a ops = (a', cs, st, rs)
   \<Longrightarrow> (closed a' \<longrightarrow> transactions a' = [])"
proof (induction ops arbitrary: a a' cs st rs)
  case Nil
  then show ?case by simp
next
  case (Cons x xs)
  obtain a1 c1 r1 where s1: "agent_step a x = (a1, c1, r1)" by (cases "agent_step a x")
  obtain a2 c2 st2 rs2 where s2: "agent_run a1 xs = (a2, c2, st2, rs2)"
    by (cases "agent_run a1 xs")
  have "a' = a2" using Cons.prems(2) s1 s2 by simp
  then show ?case using Cons.IH [OF closed_no_tx_step [OF Cons.prems(1) s1] s2] by simp
qed

lemma agent_ok_run:
  "agent_ok a \<Longrightarrow> agent_run a ops = (a', cs, st, rs) \<Longrightarrow> agent_ok a'"
proof (induction ops arbitrary: a a' cs st rs)
  case Nil
  then show ?case by simp
next
  case (Cons x xs)
  obtain a1 c1 r1 where s1: "agent_step a x = (a1, c1, r1)" by (cases "agent_step a x")
  obtain a2 c2 st2 rs2 where s2: "agent_run a1 xs = (a2, c2, st2, rs2)"
    by (cases "agent_run a1 xs")
  have "a' = a2" using Cons.prems(2) s1 s2 by simp
  then show ?case using Cons.IH [OF agent_ok_step [OF Cons.prems(1) s1] s2] by simp
qed

lemma registered_SomeD:
  "registered a t = 1 \<Longrightarrow> map_of (transactions a) (id_tx t) = Some t"
  by (simp add: registered_def split: if_splits)

lemma Process_registered:
  assumes "\<not> closed a" and "registered a t = 1" and "TransactionID m = id_tx t"
  shows "Process a m = (a\<lparr>transactions := AList.delete (id_tx t) (transactions a)\<rparr>,
                        [TxCall t \<lparr>EventMessage = Some m, EventError = None\<rparr>], None)"
  using assms(1,3) registered_SomeD [OF assms(2)] by (simp add: Process_def Let_def)

lemma Stop_registered:
  assumes "\<not> closed a" and "registered a t = 1"
  shows "StopWithError a (id_tx t) e = (a\<lparr>transactions := AList.delete (id_tx t) (transactions a)\<rparr>,
                        [TxCall t \<lparr>EventMessage = None, EventError = Some e\<rparr>], None)"
  using assms(1) registered_SomeD [OF assms(2)] by (simp add: StopWithError_def Let_def)

lemma deleted_not_registered:
  "registered (a\<lparr>transactions := AList.delete (id_tx t) (transactions a)\<rparr>) t = 0"
  by (simp add: registered_def delete_conv')

lemma Collect_registered:
  assumes ok: "agent_ok a" and nc: "\<not> closed a" and reg: "registered a t = 1"
  shows "(deadline t < g \<longrightarrow> invoked t (fst (snd (Collect a g))) = 1
                              \<and> registered (fst (Collect a g)) t = 0)
         \<and> (\<not> deadline t < g \<longrightarrow> invoked t (fst (snd (Collect a g))) = 0
                              \<and> registered (fst (Collect a g)) t = 1)"
proof -
  obtain a' cs r where c: "Collect a g = (a', cs, r)" by (cases "Collect a g")
  have cnt: "invoked t cs + registered a' t = 1"
    using Collect_count [OF ok c, of t] reg by simp
  define ex where "ex = filter (\<lambda>p. deadline (snd p) < g) (transactions a)"
  have a': "transactions a' = fold AList.delete (map fst ex) (transactions a)"
    using c nc by (auto simp: Collect_def Let_def ex_def)
  have m: "map_of (transactions a) (id_tx t) = Some t" using registered_SomeD [OF reg] .
  then have mem: "(id_tx t, t) \<in> set (transactions a)" by (rule map_of_SomeD)
  have dd: "distinct (map fst (transactions a))" using ok by (simp add: agent_ok_def)
  have inex: "id_tx t \<in> fst ` set ex \<longleftrightarrow> deadline t < g"
  proof
    assume "id_tx t \<in> fst ` set ex"
    then obtain v where v: "(id_tx t, v) \<in> set (transactions a)" "deadline v < g"
      by (auto simp: ex_def)
    have "map_of (transactions a) (id_tx t) = Some v" using dd v(1) by simp
    then show "deadline t < g" using m v(2) by simp
  next
    assume "deadline t < g"
    then have "(id_tx t, t) \<in> set ex" using mem by (simp add: ex_def)
    then show "id_tx t \<in> fst ` set ex" by force
  qed
  have rem: "map_of (transactions a') (id_tx t)
               = (if deadline t < g then None else Some t)"
    unfolding a' using inex m by (simp add: map_of_fold_delete)
  have "registered a' t = (if deadline t < g then 0 else 1)"
    by (simp add: registered_def rem)
  then show ?thesis using cnt c by auto
qed

lemma Collect_events:
  "\<forall>x \<in> set (fst (snd (Collect a g))).
      \<exists>t'. x = TxCall t' \<lparr>EventMessage = None, EventError = Some ErrTransactionTimeOut\<rparr>
            \<and> deadline t' < g"
  by (auto simp: Collect_def Let_def)

lemma Close_registered:
  assumes ok: "agent_ok a" and nc: "\<not> closed a" and reg: "registered a t = 1"
  shows "invoked t (fst (snd (Close a))) = 1 \<and> closed (fst (Close a))
         \<and> transactions (fst (Close a)) = []"
proof -
  obtain a' cs r where c: "Close a = (a', cs, r)" by (cases "Close a")
  have cnt: "invoked t cs + registered a' t = 1"
    using Close_count [OF ok c, of t] reg by simp
  have "closed a'" "transactions a' = []" using c nc by (auto simp: Close_def Let_def)
  then show ?thesis using cnt c by (simp add: registered_def)
qed


text \<open>
  Claim C1. Run any sequence of \<^verbatim>\<open>Start\<close>, \<^verbatim>\<open>Process\<close>, \<^verbatim>\<open>StopWithError\<close>, \<^verbatim>\<open>Collect\<close> and
  \<^verbatim>\<open>Close\<close> on a new agent, and let \<open>a\<close> be the agent it leaves. For every transaction
  \<open>t\<close>, the number of invocations of its handler so far, plus one if it is still registered,
  equals the number of times \<open>t\<close> was started. While \<open>t\<close> is registered and the agent open:
  \<^verbatim>\<open>Process\<close> of a message with the id of \<open>t\<close> and \<^verbatim>\<open>StopWithError\<close> of that id take \<open>t\<close> out
  of the map and invoke its handler once, with the message or with the error; \<^verbatim>\<open>Collect\<close>
  takes \<open>t\<close> out and invokes it once when its deadline is before the given time, and leaves
  it registered and not invoked otherwise, every invocation it makes being a time-out of
  an expired transaction; \<^verbatim>\<open>Close\<close> invokes it once and leaves the agent closed and empty.
  On a closed agent every operation returns \<^verbatim>\<open>ErrAgentClosed\<close> and invokes nothing, and every
  started transaction has been invoked exactly as often as it was started. Operations
  deregister under the mutex before they invoke, so a concurrent execution has the counts
  of the order in which the mutex was taken.
\<close>

theorem handler_once:
  assumes "agent_run (NewAgent z) ops = (a, cs, st, rs)"
  shows "invoked t cs + registered a t = count_list st t
         \<and> (closed a \<longrightarrow> invoked t cs = count_list st t
              \<and> (\<forall>x. agent_step a x = (a, [], Some ErrAgentClosed)))
         \<and> (\<not> closed a \<and> registered a t = 1 \<longrightarrow>
              (TransactionID m = id_tx t \<longrightarrow>
                 Process a m = (a\<lparr>transactions := AList.delete (id_tx t) (transactions a)\<rparr>,
                                [TxCall t \<lparr>EventMessage = Some m, EventError = None\<rparr>], None))
              \<and> StopWithError a (id_tx t) e
                   = (a\<lparr>transactions := AList.delete (id_tx t) (transactions a)\<rparr>,
                      [TxCall t \<lparr>EventMessage = None, EventError = Some e\<rparr>], None)
              \<and> registered (a\<lparr>transactions := AList.delete (id_tx t) (transactions a)\<rparr>) t = 0
              \<and> (deadline t < g \<longrightarrow> invoked t (fst (snd (Collect a g))) = 1
                                      \<and> registered (fst (Collect a g)) t = 0)
              \<and> (\<not> deadline t < g \<longrightarrow> invoked t (fst (snd (Collect a g))) = 0
                                      \<and> registered (fst (Collect a g)) t = 1)
              \<and> invoked t (fst (snd (Close a))) = 1 \<and> closed (fst (Close a))
              \<and> transactions (fst (Close a)) = [])
         \<and> (\<forall>x \<in> set (fst (snd (Collect a g))).
              \<exists>t'. x = TxCall t' \<lparr>EventMessage = None, EventError = Some ErrTransactionTimeOut\<rparr>
                    \<and> deadline t' < g)"
proof -
  have ok0: "agent_ok (NewAgent z)" by (simp add: agent_ok_def NewAgent_def)
  have ok: "agent_ok a" using agent_ok_run [OF ok0 assms] .
  have r0: "registered (NewAgent z) t = 0" by (simp add: registered_def NewAgent_def)
  have c: "invoked t cs + registered a t = count_list st t"
    using run_count [OF ok0 assms, of t] r0 by simp
  have "closed a \<longrightarrow> transactions a = []"
    using closed_no_tx_run [OF _ assms] by (simp add: NewAgent_def)
  then have "closed a \<longrightarrow> registered a t = 0" by (simp add: registered_def)
  then have p2: "closed a \<longrightarrow> invoked t cs = count_list st t
              \<and> (\<forall>x. agent_step a x = (a, [], Some ErrAgentClosed))"
    using c closed_step by auto
  have p3: "\<not> closed a \<and> registered a t = 1 \<longrightarrow>
              (TransactionID m = id_tx t \<longrightarrow>
                 Process a m = (a\<lparr>transactions := AList.delete (id_tx t) (transactions a)\<rparr>,
                                [TxCall t \<lparr>EventMessage = Some m, EventError = None\<rparr>], None))
              \<and> StopWithError a (id_tx t) e
                   = (a\<lparr>transactions := AList.delete (id_tx t) (transactions a)\<rparr>,
                      [TxCall t \<lparr>EventMessage = None, EventError = Some e\<rparr>], None)
              \<and> registered (a\<lparr>transactions := AList.delete (id_tx t) (transactions a)\<rparr>) t = 0
              \<and> (deadline t < g \<longrightarrow> invoked t (fst (snd (Collect a g))) = 1
                                      \<and> registered (fst (Collect a g)) t = 0)
              \<and> (\<not> deadline t < g \<longrightarrow> invoked t (fst (snd (Collect a g))) = 0
                                      \<and> registered (fst (Collect a g)) t = 1)
              \<and> invoked t (fst (snd (Close a))) = 1 \<and> closed (fst (Close a))
              \<and> transactions (fst (Close a)) = []"
  proof
    assume h: "\<not> closed a \<and> registered a t = 1"
    then have nc: "\<not> closed a" and reg: "registered a t = 1" by simp_all
    show "(TransactionID m = id_tx t \<longrightarrow>
                 Process a m = (a\<lparr>transactions := AList.delete (id_tx t) (transactions a)\<rparr>,
                                [TxCall t \<lparr>EventMessage = Some m, EventError = None\<rparr>], None))
              \<and> StopWithError a (id_tx t) e
                   = (a\<lparr>transactions := AList.delete (id_tx t) (transactions a)\<rparr>,
                      [TxCall t \<lparr>EventMessage = None, EventError = Some e\<rparr>], None)
              \<and> registered (a\<lparr>transactions := AList.delete (id_tx t) (transactions a)\<rparr>) t = 0
              \<and> (deadline t < g \<longrightarrow> invoked t (fst (snd (Collect a g))) = 1
                                      \<and> registered (fst (Collect a g)) t = 0)
              \<and> (\<not> deadline t < g \<longrightarrow> invoked t (fst (snd (Collect a g))) = 0
                                      \<and> registered (fst (Collect a g)) t = 1)
              \<and> invoked t (fst (snd (Close a))) = 1 \<and> closed (fst (Close a))
              \<and> transactions (fst (Close a)) = []"
      using Process_registered [OF nc reg, of m] Stop_registered [OF nc reg, of e]
        deleted_not_registered [where a = a and t = t] Collect_registered [OF ok nc reg, of g]
        Close_registered [OF ok nc reg]
      by blast
  qed
  show ?thesis using c p2 p3 Collect_events [of a g] by blast
qed

theorem handler_once_witness:
  "agent_run (NewAgent None) [OpStart 1 10 7, OpStart 2 20 8, OpStart 1 30 9]
     = (agentOpen, [], [tx1, tx2], [None, None, Some ErrTransactionExists])
   \<and> Process agentOpen msg1
       = (agentOpen\<lparr>transactions := [(2, tx2)]\<rparr>,
          [TxCall tx1 \<lparr>EventMessage = Some msg1, EventError = None\<rparr>], None)
   \<and> StopWithError agentOpen 1 ErrTransactionStopped
       = (agentOpen\<lparr>transactions := [(2, tx2)]\<rparr>,
          [TxCall tx1 \<lparr>EventMessage = None, EventError = Some ErrTransactionStopped\<rparr>], None)
   \<and> invoked tx1 (fst (snd (Collect agentOpen 15))) = 1
   \<and> registered (fst (Collect agentOpen 15)) tx1 = 0
   \<and> invoked tx2 (fst (snd (Collect agentOpen 15))) = 0
   \<and> registered (fst (Collect agentOpen 15)) tx2 = 1
   \<and> invoked tx2 (fst (snd (Close agentOpen))) = 1
   \<and> agent_run (NewAgent None)
        [OpStart 1 10 7, OpStart 2 20 8, OpStart 1 30 9, OpProcess msg1, OpCollect 25, OpClose]
     = (agentClosed,
        [TxCall tx1 \<lparr>EventMessage = Some msg1, EventError = None\<rparr>, TxCall tx2 timeoutEvent],
        [tx1, tx2],
        [None, None, Some ErrTransactionExists, None, None, None])
   \<and> invoked tx1 [TxCall tx1 \<lparr>EventMessage = Some msg1, EventError = None\<rparr>,
                    TxCall tx2 timeoutEvent] = 1
   \<and> invoked tx2 [TxCall tx1 \<lparr>EventMessage = Some msg1, EventError = None\<rparr>,
                    TxCall tx2 timeoutEvent] = 1
   \<and> agent_step agentClosed (OpStart 3 5 6) = (agentClosed, [], Some ErrAgentClosed)"
proof -
  have run1: "agent_run (NewAgent None) [OpStart 1 10 7, OpStart 2 20 8, OpStart 1 30 9]
     = (agentOpen, [], [tx1, tx2], [None, None, Some ErrTransactionExists])"
    by (simp add: NewAgent_def Start_def started_by_def agentOpen_def tx1_def tx2_def)
  have run2: "agent_run (NewAgent None)
        [OpStart 1 10 7, OpStart 2 20 8, OpStart 1 30 9, OpProcess msg1, OpCollect 25, OpClose]
     = (agentClosed,
        [TxCall tx1 \<lparr>EventMessage = Some msg1, EventError = None\<rparr>, TxCall tx2 timeoutEvent],
        [tx1, tx2],
        [None, None, Some ErrTransactionExists, None, None, None])"
    by (simp add: NewAgent_def Start_def Process_def Collect_def Close_def started_by_def Let_def
        agentClosed_def tx1_def tx2_def msg1_def timeoutEvent_def)
  have o: "\<not> closed agentOpen" "registered agentOpen tx1 = 1" "registered agentOpen tx2 = 1"
    "TransactionID msg1 = id_tx tx1" "deadline tx1 < 15" "\<not> deadline tx2 < 15"
    "id_tx tx1 = 1" "AList.delete 1 (transactions agentOpen) = [(2, tx2)]"
    by (simp_all add: agentOpen_def registered_def tx1_def tx2_def msg1_def AList.delete_eq)
  have cl: "closed agentClosed" by (simp add: agentClosed_def)
  note h1 = handler_once [OF run1, of tx1 msg1 ErrTransactionStopped 15]
  note h2 = handler_once [OF run1, of tx2 msg1 ErrTransactionStopped 15]
  note h3 = handler_once [OF run2, of tx1]
  note h4 = handler_once [OF run2, of tx2]
  have c2: "Process agentOpen msg1
       = (agentOpen\<lparr>transactions := [(2, tx2)]\<rparr>,
          [TxCall tx1 \<lparr>EventMessage = Some msg1, EventError = None\<rparr>], None)"
    using h1 o by simp
  have c3: "StopWithError agentOpen 1 ErrTransactionStopped
       = (agentOpen\<lparr>transactions := [(2, tx2)]\<rparr>,
          [TxCall tx1 \<lparr>EventMessage = None, EventError = Some ErrTransactionStopped\<rparr>], None)"
    using h1 o by simp
  have c4: "invoked tx1 (fst (snd (Collect agentOpen 15))) = 1"
    "registered (fst (Collect agentOpen 15)) tx1 = 0"
    using h1 o by simp_all
  have c5: "invoked tx2 (fst (snd (Collect agentOpen 15))) = 0"
    "registered (fst (Collect agentOpen 15)) tx2 = 1"
    "invoked tx2 (fst (snd (Close agentOpen))) = 1"
    using h2 o by simp_all
  have c6: "invoked tx1 [TxCall tx1 \<lparr>EventMessage = Some msg1, EventError = None\<rparr>,
                    TxCall tx2 timeoutEvent] = 1"
    using h3 cl by (simp add: tx1_def tx2_def)
  have c7: "invoked tx2 [TxCall tx1 \<lparr>EventMessage = Some msg1, EventError = None\<rparr>,
                    TxCall tx2 timeoutEvent] = 1"
    using h4 cl by (simp add: tx1_def tx2_def)
  have "\<forall>x. agent_step agentClosed x = (agentClosed, [], Some ErrAgentClosed)"
    using h3 cl by simp
  then have c8: "agent_step agentClosed (OpStart 3 5 6) = (agentClosed, [], Some ErrAgentClosed)"
    by (rule spec)
  show ?thesis using run1 c2 c3 c4 c5 run2 c6 c7 c8 by (intro conjI)
qed

section \<open>Typed attributes\<close>

text \<open>
  Added to a message that has no attribute of the type yet, a reservation token of 8 bytes
  is read back unchanged, and so is an error code between 300 and 699 with a reason of at
  most 759 bytes. The attribute section that \<open>Add\<close> writes decodes to the attributes added,
  in order.
\<close>

lemma getAttr_append_new:
  "getAttr t as = Err ErrAttributeNotFound \<Longrightarrow> getAttr t (as @ [(t, v)]) = Ok v"
  by (induction as) (auto split: if_splits)

lemma ReservationToken_roundtrip:
  assumes "length t = 8" and "Get AttrReservationToken m = Err ErrAttributeNotFound"
  shows "ReservationToken_AddTo t m = Ok (Add AttrReservationToken t m)
         \<and> ReservationToken_GetFrom (Add AttrReservationToken t m) = Ok t"
  using assms
  by (simp add: ReservationToken_AddTo_def ReservationToken_GetFrom_def reservationTokenSize_def
      Get_def Add_def getAttr_append_new)

lemma go_quot_rem_nonneg:
  "0 \<le> a \<Longrightarrow> go_quot a 100 = a div 100 \<and> go_rem a 100 = a mod 100"
  by (cases "a = 0") (auto simp: go_quot_def go_rem_def sgn_if minus_mult_div_eq_mod)

lemma code_bytes:
  fixes q r :: int
  assumes "0 \<le> q" "q < 256" "0 \<le> r" "r < 100"
  shows "uint ((ucast (word_of_int q :: 8 word) :: 16 word) * 100
               + (ucast (word_of_int r :: 8 word) :: 16 word)) = q * 100 + r"
proof -
  have q: "uint (ucast (word_of_int q :: 8 word) :: 16 word) = q"
    using assms(1,2) by (simp add: uint_word_of_int take_bit_int_eq_self unsigned_ucast_eq)
  have r: "uint (ucast (word_of_int r :: 8 word) :: 16 word) = r"
    using assms(3,4) by (simp add: uint_word_of_int take_bit_int_eq_self unsigned_ucast_eq)
  have "q * 100 < 65536" "0 \<le> q * 100" "q * 100 + r < 65536" "0 \<le> q * 100 + r"
    using assms by auto
  then have "(q * 100 mod 65536 + r) mod 65536 = q * 100 + r" by simp
  then show ?thesis
    by (simp add: uint_word_ariths q r)
qed

lemma ErrorCode_roundtrip:
  assumes "300 \<le> Code c" and "Code c \<le> 699" and "length (Reason c) \<le> 759"
    and "Get AttrErrorCode m = Err ErrAttributeNotFound"
  shows "\<exists>m'. ErrorCodeAttribute_AddTo c m = Ok m' \<and> ErrorCodeAttribute_GetFrom m' = Ok c"
proof -
  let ?q = "Code c div 100" and ?r = "Code c mod 100"
  have qr: "go_quot (Code c) 100 = ?q" "go_rem (Code c) 100 = ?r"
    using go_quot_rem_nonneg [of "Code c"] assms(1) by auto
  have b: "0 \<le> ?q" "?q < 256" "0 \<le> ?r" "?r < 100" using assms(1,2) by auto
  let ?v = "[0, 0, word_of_int ?q, word_of_int ?r] @ Reason c"
  have a: "ErrorCodeAttribute_AddTo c m = Ok (Add AttrErrorCode ?v m)"
    using assms(3)
    by (simp add: ErrorCodeAttribute_AddTo_def errorCodeReasonMaxB_def errorCodeReasonStart_def
        errorCodeModulo_def qr Let_def)
  have g: "Get AttrErrorCode (Add AttrErrorCode ?v m) = Ok ?v"
    using assms(4) by (simp add: Get_def Add_def getAttr_append_new)
  have "ErrorCodeAttribute_GetFrom (Add AttrErrorCode ?v m)
          = Ok \<lparr>Code = ?q * 100 + ?r, Reason = Reason c\<rparr>"
    unfolding ErrorCodeAttribute_GetFrom_def g
    by (simp add: errorCodeReasonStart_def errorCodeClassByte_def errorCodeNumberByte_def
        Let_def code_bytes [OF b])
  then show ?thesis using a by simp
qed


lemma rd16_be16:
  "n < 65536 \<Longrightarrow> rd16 (of_nat (n div 256)) (of_nat (n mod 256)) = n"
  by (simp add: rd16_def unat_of_nat take_bit_nat_eq_self)

lemma decodeAttrs_step:
  assumes "length v < 65536"
  shows "decodeAttrs (Suc f) (encodeAttr (t, v) @ rest) =
           (case decodeAttrs f rest of
              Ok as \<Rightarrow> Ok ((t, v) # as)
            | Err e \<Rightarrow> Err e
            | Panic x \<Rightarrow> Panic x)"
proof -
  have t: "unat t < 65536" using unsigned_less [of t, where ?'a = nat] by simp
  have rt: "rd16 (of_nat (unat t div 256)) (of_nat (unat t mod 256)) = unat t"
    using rd16_be16 [OF t] .
  have rl: "rd16 (of_nat (length v div 256)) (of_nat (length v mod 256)) = length v"
    using rd16_be16 [OF assms] .
  show ?thesis
    by (simp add: encodeAttr_def be16_def rt rl Let_def split: result.splits)
qed

lemma decodeAttrs_encodeAttrs:
  "list_all (\<lambda>a. length (snd a) < 65536) as \<Longrightarrow> decodeAttrs (length as) (encodeAttrs as) = Ok as"
proof (induction as)
  case Nil
  then show ?case by (simp add: encodeAttrs_def)
next
  case (Cons a as)
  obtain t v where a: "a = (t, v)" by (cases a)
  have v: "length v < 65536" using Cons.prems a by simp
  have ih: "decodeAttrs (length as) (encodeAttrs as) = Ok as" using Cons by simp
  have "encodeAttrs (a # as) = encodeAttr (t, v) @ encodeAttrs as"
    by (simp add: encodeAttrs_def a)
  then show ?case using decodeAttrs_step [OF v, of "length as" t "encodeAttrs as"] ih a by simp
qed

section \<open>Error codes\<close>

text \<open>
  Claim C5. The spec gives StaleNonce as 438 and RoleConflict as 487 (RFC 5389, RFC 5245).
  The source declares \<^verbatim>\<open>CodeStaleNonce = 428\<close> and \<^verbatim>\<open>CodeRoleConflict = 478\<close>; only
  \<^verbatim>\<open>CodeUnauthorised = 401\<close> agrees.
\<close>

theorem error_code_constants:
  "CodeUnauthorised = 401 \<and> CodeStaleNonce = 428 \<and> CodeRoleConflict = 478
   \<and> CodeStaleNonce \<noteq> 438 \<and> CodeRoleConflict \<noteq> 487"
  by (simp add: CodeUnauthorised_def CodeStaleNonce_def CodeRoleConflict_def)

text \<open>
  Claim C9. The round trip of ERROR-CODE is claimed for every reason of at most 763 bytes.
  \<^verbatim>\<open>AddTo\<close> accepts such a reason in its overflow check, but its buffer has capacity 763
  for the 4 leading bytes and the reason together: with a reason of 760 bytes the reslice
  to 764 bytes panics, and nothing is encoded.
\<close>

theorem ErrorCodeAttribute_AddTo_long_reason:
  "length (Reason \<lparr>Code = CodeBadRequest, Reason = replicate 760 0\<rparr>) \<le> errorCodeReasonMaxB
   \<and> ErrorCodeAttribute_AddTo \<lparr>Code = CodeBadRequest, Reason = replicate 760 0\<rparr> m
       = Panic ''slice bounds out of range''"
  by (simp add: ErrorCodeAttribute_AddTo_def errorCodeReasonMaxB_def errorCodeReasonStart_def)

section \<open>The STUN server-socket\<close>

text \<open>
  Claim C10. \<^verbatim>\<open>stunServerSock.sendData\<close> called with the socket's own address as source
  never reaches the panic: it appends the data to the send queue, or leaves the socket as
  it is when the socket is stopped. Called with any other source address it panics and
  sends nothing.
\<close>

theorem sendData_source_address:
  "(fromaddr = Addr s \<longrightarrow>
      sendData s dat fromaddr toaddr
        = Ok (if stoped s then s
              else s\<lparr>sendchan := sendchan s @ [\<lparr>sr_data = dat, sr_to = toaddr\<rparr>]\<rparr>))
   \<and> (fromaddr \<noteq> Addr s \<longrightarrow> sendData s dat fromaddr toaddr = Panic ''each binding...'')"
  by (auto simp: sendData_def)

theorem sendData_source_address_witness:
  "sendData sock0 [1, 2] ''10.0.0.1:5000'' ''10.0.0.2:6000''
     = Ok (sock0\<lparr>sendchan := [\<lparr>sr_data = [1, 2], sr_to = ''10.0.0.2:6000''\<rparr>]\<rparr>)
   \<and> sendData (sock0\<lparr>stoped := True\<rparr>) [1, 2] ''10.0.0.1:5000'' ''10.0.0.2:6000''
     = Ok (sock0\<lparr>stoped := True\<rparr>)
   \<and> sendData sock0 [1, 2] ''1.2.3.4:49152'' ''10.0.0.2:6000'' = Panic ''each binding...''"
  using sendData_source_address [of "''10.0.0.1:5000''" sock0 "[1, 2]" "''10.0.0.2:6000''"]
    sendData_source_address [of "''10.0.0.1:5000''" "sock0\<lparr>stoped := True\<rparr>" "[1, 2]" "''10.0.0.2:6000''"]
    sendData_source_address [of "''1.2.3.4:49152''" sock0 "[1, 2]" "''10.0.0.2:6000''"]
  by (simp add: sock0_def newStunServerSock_def)

text \<open>
  Claim C4. A synchronous send whose wait ends with the timer returns \<^verbatim>\<open>errTimeout\<close>, and
  the waiter it registered under the message's transaction id is still in the waiter map,
  on the STUN socket and on the TURN socket. When the wait ends with a response the waiter
  is gone, taken out by \<^verbatim>\<open>stunMessageReceived\<close> before it delivered the response.
\<close>

theorem sync_timeout_leaves_waiter:
  "sendStunMessageSync now sock0 request7 ''10.0.0.1:5000'' ''10.0.0.2:6000'' 1 TimedOut
     = Ok (sock0\<lparr>waiters := [(7, 1)],
                 sendchan := [\<lparr>sr_data = [0, 1], sr_to = ''10.0.0.2:6000''\<rparr>]\<rparr>, Err errTimeout)
   \<and> ts_sendStunMessageSync lib tid now turn0 request7 ''10.0.0.1:5000'' ''1.2.3.4:3478'' 1 TimedOut
     = Ok (turn0\<lparr>ts_s := sock0\<lparr>waiters := [(7, 1)],
                 sendchan := [\<lparr>sr_data = [0, 1], sr_to = ''1.2.3.4:3478''\<rparr>]\<rparr>\<rparr>, Err errTimeout)
   \<and> sendStunMessageSync now sock0 request7 ''10.0.0.1:5000'' ''10.0.0.2:6000'' 1
        (Received \<lparr>rsp_res = response7, rsp_from = ''10.0.0.2:6000''\<rparr>)
     = Ok (sock0\<lparr>waiters := [],
                 sendchan := [\<lparr>sr_data = [0, 1], sr_to = ''10.0.0.2:6000''\<rparr>]\<rparr>, Ok response7)"
  by (simp add: sendStunMessageSync_def ts_sendStunMessageSync_def wrapperStunMessage_def
      addWaiter_def sendStunMessageAsync_def sendData_def wait_def during_wait_def
      getAndRemoveWaiter_def
      sock0_def turn0_def newStunServerSock_def request7_def BindingRequest_def)

section \<open>The response cache\<close>

lemma fold_delete_filter:
  "fold (\<lambda>p m. if E p then AList.delete (fst p) m else m) ys m
   = filter (\<lambda>q. \<not> (\<exists>p\<in>set ys. E p \<and> fst p = fst q)) m"
proof (induction ys arbitrary: m)
  case Nil
  then show ?case by simp
next
  case (Cons y ys)
  have "filter (\<lambda>q. \<not> (\<exists>p\<in>set ys. E p \<and> fst p = fst q)) (AList.delete (fst y) m)
        = filter (\<lambda>q. \<not> (\<exists>p\<in>set (y # ys). E p \<and> fst p = fst q)) m" if "E y"
    unfolding AList.delete_eq filter_filter
    by (rule filter_cong) (use that in \<open>auto simp: case_prod_beta\<close>)
  moreover have "filter (\<lambda>q. \<not> (\<exists>p\<in>set ys. E p \<and> fst p = fst q)) m
        = filter (\<lambda>q. \<not> (\<exists>p\<in>set (y # ys). E p \<and> fst p = fst q)) m" if "\<not> E y"
    by (rule filter_cong) (use that in auto)
  ultimately show ?case by (simp add: Cons.IH)
qed

lemma alist_key_unique:
  "distinct (map fst xs) \<Longrightarrow> p \<in> set xs \<Longrightarrow> q \<in> set xs \<Longrightarrow> fst p = fst q \<Longrightarrow> p = q"
  by (induction xs) (auto simp: image_iff)

lemma evictExpired_filter:
  assumes "distinct (map fst cache)"
  shows "evictExpired ttl now cache = filter (\<lambda>q. \<not> cacheTime (snd q) + ttl < now) cache"
proof -
  have "(\<exists>p\<in>set cache. cacheTime (snd p) + ttl < now \<and> fst p = fst q)
        \<longleftrightarrow> cacheTime (snd q) + ttl < now" if "q \<in> set cache" for q
  proof
    assume "\<exists>p\<in>set cache. cacheTime (snd p) + ttl < now \<and> fst p = fst q"
    then obtain p where p: "p \<in> set cache" "cacheTime (snd p) + ttl < now" "fst p = fst q"
      by blast
    have "p = q" using assms p(1,3) that by (simp add: alist_key_unique)
    then show "cacheTime (snd q) + ttl < now" using p(2) by simp
  next
    assume "cacheTime (snd q) + ttl < now"
    then show "\<exists>p\<in>set cache. cacheTime (snd p) + ttl < now \<and> fst p = fst q"
      using that by blast
  qed
  then have "filter (\<lambda>q. \<not> (\<exists>p\<in>set cache. cacheTime (snd p) + ttl < now \<and> fst p = fst q)) cache
             = filter (\<lambda>q. \<not> cacheTime (snd q) + ttl < now) cache"
    by (intro filter_cong) auto
  then show ?thesis
    unfolding evictExpired_def fold_delete_filter .
qed

lemma find_unique:
  assumes "x \<in> set xs" and "P x" and "\<And>y. y \<in> set xs \<Longrightarrow> P y \<Longrightarrow> y = x"
  shows "find P xs = Some x"
  using assms
proof (induction xs)
  case Nil
  then show ?case by simp
next
  case (Cons a xs)
  show ?case
  proof (cases "P a")
    case True
    have "a = x" using Cons.prems(3) [of a] True by simp
    then show ?thesis using True by simp
  next
    case False
    have "x \<in> set xs" using Cons.prems(1,2) False by auto
    moreover have "\<And>y. y \<in> set xs \<Longrightarrow> P y \<Longrightarrow> y = x" using Cons.prems(3) by simp
    ultimately have "find P xs = Some x" using Cons.IH Cons.prems(2) by blast
    then show ?thesis using False by simp
  qed
qed

lemma find_none: "(\<And>y. y \<in> set xs \<Longrightarrow> \<not> P y) \<Longrightarrow> find P xs = None"
  unfolding find_None_iff by blast

lemma sendData_own: "sendData s dat (Addr s) toaddr
   = Ok (if stoped s then s else s\<lparr>sendchan := sendchan s @ [\<lparr>sr_data = dat, sr_to = toaddr\<rparr>]\<rparr>)"
  by (simp add: sendData_def)

lemma cache_entry:
  assumes "cache_ok s" and "map_of (cachedResponse s) k = Some c"
  shows "(k, c) \<in> set (cachedResponse s)" and "TransactionID (cr_msg c) = k"
  using assms by (auto simp: cache_ok_def list_all_iff dest!: map_of_SomeD)

lemma cache_key:
  assumes "cache_ok s" and "p \<in> set (cachedResponse s)"
  shows "TransactionID (cr_msg (snd p)) = fst p"
  using assms by (auto simp: cache_ok_def list_all_iff)

lemma checkCachedResponse_hit:
  assumes ok: "cache_ok s"
    and hit: "map_of (cachedResponse s) (TransactionID req) = Some c"
    and meth: "Method (Type (cr_msg c)) = Method (Type req)"
    and fresh: "\<not> cacheTime c + ttl < now"
  shows "checkCachedResponse ttl now s req frm =
           Ok (if stoped s then evicted ttl now s
               else (evicted ttl now s)\<lparr>sendchan := sendchan s
                       @ [\<lparr>sr_data = Raw (cr_msg c), sr_to = frm\<rparr>]\<rparr>, True)"
proof -
  let ?k = "TransactionID req"
  define P :: "TransactionID \<times> cachedResponse \<Rightarrow> bool" where "P = (\<lambda>p. Method (Type (cr_msg (snd p))) = Method (Type req)
                       \<and> TransactionID (cr_msg (snd p)) = TransactionID req)"
  define f where "f = filter (\<lambda>q. \<not> cacheTime (snd q) + ttl < now) (cachedResponse s)"
  have d: "distinct (map fst (cachedResponse s))" using ok by (simp add: cache_ok_def)
  have mem: "(?k, c) \<in> set (cachedResponse s)" and kc: "TransactionID (cr_msg c) = ?k"
    using cache_entry [OF ok hit] by auto
  have ne: "\<not> length (cachedResponse s) \<le> 0" using mem by (cases "cachedResponse s") auto
  have ev: "evictExpired ttl now (cachedResponse s) = f"
    unfolding f_def using evictExpired_filter [OF d] .
  have memf: "(?k, c) \<in> set f" using mem fresh by (simp add: f_def)
  have uniq: "y = (?k, c)" if "y \<in> set f" "P y" for y
  proof -
    have y: "y \<in> set (cachedResponse s)" using that(1) by (simp add: f_def)
    have "fst y = ?k" using cache_key [OF ok y] that(2) by (simp add: P_def)
    then show ?thesis using alist_key_unique [OF d y mem] by simp
  qed
  have Pc: "P (?k, c)" using meth kc by (simp add: P_def)
  have fnd: "find P f = Some (?k, c)"
    using find_unique [OF memf, of P] Pc uniq by blast
  have e: "evicted ttl now s = s\<lparr>cachedResponse := f\<rparr>" by (simp add: evicted_def f_def)
  have "checkCachedResponse ttl now s req frm =
          (case find P f of
             Some p \<Rightarrow>
               (case sendData (s\<lparr>cachedResponse := f\<rparr>) (Raw (cr_msg (snd p)))
                       (Addr (s\<lparr>cachedResponse := f\<rparr>)) frm of
                  Ok s2 \<Rightarrow> Ok (s2, True)
                | Err e \<Rightarrow> Ok (s\<lparr>cachedResponse := f\<rparr>, True)
                | Panic x \<Rightarrow> Panic x)
           | None \<Rightarrow> Ok (s\<lparr>cachedResponse := f\<rparr>, False))"
    unfolding checkCachedResponse_def ev Let_def P_def using ne by simp
  also have "\<dots> = Ok (if stoped s then evicted ttl now s
               else (evicted ttl now s)\<lparr>sendchan := sendchan s
                       @ [\<lparr>sr_data = Raw (cr_msg c), sr_to = frm\<rparr>]\<rparr>, True)"
    unfolding fnd e by (simp add: sendData_def)
  finally show ?thesis .
qed

lemma checkCachedResponse_expired:
  assumes ok: "cache_ok s"
    and hit: "map_of (cachedResponse s) (TransactionID req) = Some c"
    and old: "cacheTime c + ttl < now"
  shows "checkCachedResponse ttl now s req frm = Ok (evicted ttl now s, False)"
proof -
  let ?k = "TransactionID req"
  define P :: "TransactionID \<times> cachedResponse \<Rightarrow> bool" where "P = (\<lambda>p. Method (Type (cr_msg (snd p))) = Method (Type req)
                       \<and> TransactionID (cr_msg (snd p)) = TransactionID req)"
  define f where "f = filter (\<lambda>q. \<not> cacheTime (snd q) + ttl < now) (cachedResponse s)"
  have d: "distinct (map fst (cachedResponse s))" using ok by (simp add: cache_ok_def)
  have mem: "(?k, c) \<in> set (cachedResponse s)"
    using cache_entry [OF ok hit] by auto
  have ne: "\<not> length (cachedResponse s) \<le> 0" using mem by (cases "cachedResponse s") auto
  have ev: "evictExpired ttl now (cachedResponse s) = f"
    unfolding f_def using evictExpired_filter [OF d] .
  have no: "\<not> P y" if "y \<in> set f" for y
  proof
    assume p: "P y"
    have y: "y \<in> set (cachedResponse s)" using that by (simp add: f_def)
    have "fst y = ?k" using cache_key [OF ok y] p by (simp add: P_def)
    then have "y = (?k, c)" using alist_key_unique [OF d y mem] by simp
    then show False using that old by (simp add: f_def)
  qed
  have fnd: "find P f = None" using find_none [of f P] no by blast
  have e: "evicted ttl now s = s\<lparr>cachedResponse := f\<rparr>" by (simp add: evicted_def f_def)
  have "checkCachedResponse ttl now s req frm =
          (case find P f of
             Some p \<Rightarrow>
               (case sendData (s\<lparr>cachedResponse := f\<rparr>) (Raw (cr_msg (snd p)))
                       (Addr (s\<lparr>cachedResponse := f\<rparr>)) frm of
                  Ok s2 \<Rightarrow> Ok (s2, True)
                | Err e \<Rightarrow> Ok (s\<lparr>cachedResponse := f\<rparr>, True)
                | Panic x \<Rightarrow> Panic x)
           | None \<Rightarrow> Ok (s\<lparr>cachedResponse := f\<rparr>, False))"
    unfolding checkCachedResponse_def ev Let_def P_def using ne by simp
  also have "\<dots> = Ok (evicted ttl now s, False)"
    unfolding fnd e by simp
  finally show ?thesis .
qed


lemma stunMessageReceived_no_waiter:
  assumes "map_of (waiters s) (TransactionID req) = None"
    and "Method (Type req) \<noteq> MethodChannelData"
  shows "stunMessageReceived g ttl now s localaddr frm req =
           (case checkCachedResponse ttl now s req frm of
                Ok (s3, True) \<Rightarrow> Ok s3
              | Ok (s3, False) \<Rightarrow>
                  Ok (if cb s3
                      then s3\<lparr>effects := effects s3 @ [RecieveStunMessage localaddr frm req]\<rparr>
                      else s3)
              | Err e \<Rightarrow> Err e
              | Panic x \<Rightarrow> Panic x)"
  using assms by (simp add: stunMessageReceived_def getAndRemoveWaiter_def)

lemma cache_ok_new: "cache_ok (newStunServerSock a c n)"
  by (simp add: cache_ok_def newStunServerSock_def)

lemma list_all_update_alist:
  "list_all P al \<Longrightarrow> P (k, v) \<Longrightarrow> list_all P (AList.update k v al)"
  by (induction al) auto

lemma sendStunMessageAsync_caches:
  assumes "cache_ok s"
    and "Class (Type m) = ClassSuccessResponse \<or> Class (Type m) = ClassErrorResponse"
    and "sendStunMessageAsync t0 s m fromaddr toaddr = Ok s'"
  shows "cache_ok s'
         \<and> map_of (cachedResponse s') (TransactionID m) = Some \<lparr>cacheTime = t0, cr_msg = m\<rparr>"
  using assms
  by (auto simp: sendStunMessageAsync_def sendData_def cache_ok_def Let_def update_conv'
        distinct_update list_all_update_alist split: if_splits)

lemma sock_ok_new: "sock_ok (newStunServerSock a c n)"
  by (simp add: sock_ok_def cache_ok_def newStunServerSock_def)

lemma sock_ok_no_waiter:
  assumes "sock_ok s" and "map_of (cachedResponse s) k = Some c"
  shows "map_of (waiters s) k = None"
proof (rule ccontr)
  assume "map_of (waiters s) k \<noteq> None"
  then obtain ch where "map_of (waiters s) k = Some ch" by auto
  then have "(k, ch) \<in> set (waiters s)" by (rule map_of_SomeD)
  then have "map_of (cachedResponse s) k = None"
    using assms(1) by (auto simp: sock_ok_def list_all_iff)
  then show False using assms(2) by simp
qed

lemma list_all_waiters_delete:
  "list_all P ws \<Longrightarrow> list_all P (AList.delete k ws)"
  by (induction ws) auto

lemma map_of_filter_None:
  "map_of ps k = None \<Longrightarrow> map_of (filter P ps) k = None"
  by (induction ps) (auto split: if_splits)

lemma cache_ok_filter:
  assumes "distinct (map fst ps)" and "list_all Q ps"
  shows "distinct (map fst (filter P ps)) \<and> list_all Q (filter P ps)"
  using assms by (auto simp: distinct_map_filter list_all_iff)

lemma sock_ok_fields:
  assumes "sock_ok s"
    and "waiters s' = waiters s \<or> (\<exists>k. waiters s' = AList.delete k (waiters s))"
    and "cachedResponse s' = cachedResponse s
         \<or> (\<exists>P. cachedResponse s' = filter P (cachedResponse s))"
  shows "sock_ok s'"
proof -
  have c: "cache_ok s'"
    using assms(1,3) cache_ok_filter [of "cachedResponse s"]
    by (auto simp: sock_ok_def cache_ok_def)
  have "list_all (\<lambda>w. map_of (cachedResponse s) (fst w) = None) (waiters s')"
    using assms(1,2) by (auto simp: sock_ok_def list_all_waiters_delete)
  moreover have "map_of (cachedResponse s) k = None \<Longrightarrow> map_of (cachedResponse s') k = None" for k
    using assms(3) by (auto simp: map_of_filter_None)
  ultimately have "list_all (\<lambda>w. map_of (cachedResponse s') (fst w) = None) (waiters s')"
    by (auto simp: list_all_iff)
  then show ?thesis using c by (simp add: sock_ok_def)
qed

lemma checkCachedResponse_fields:
  assumes "cache_ok s" and "checkCachedResponse ttl now s req frm = Ok (s', b)"
  shows "waiters s' = waiters s
         \<and> (cachedResponse s' = cachedResponse s
            \<or> (\<exists>P. cachedResponse s' = filter P (cachedResponse s)))"
proof -
  have d: "distinct (map fst (cachedResponse s))" using assms(1) by (simp add: cache_ok_def)
  show ?thesis
    using assms(2) unfolding checkCachedResponse_def Let_def evictExpired_filter [OF d]
    by (auto simp: sendData_def split: if_splits option.splits result.splits)
qed

lemma sock_ok_stunMessageReceived:
  assumes "sock_ok s" and "stunMessageReceived g ttl now s localaddr frm m = Ok s'"
  shows "sock_ok s'"
proof -
  define pre where "pre =
        (if Method (Type m) = MethodChannelData then
           (case mode s of
              stageNegotiation \<Rightarrow> (False, s)
            | stunModeData \<Rightarrow> (False, dataReceived s frm (Raw m))
            | turnModeData \<Rightarrow>
                (case g m of
                   Some cd \<Rightarrow>
                     (case map_of (channelNumber2Address s) (uint (fst cd)) of
                        None \<Rightarrow> (False, s)
                      | Some peer \<Rightarrow> (True, dataReceived s peer (snd cd)))
                 | None \<Rightarrow> (False, s)))
         else (True, s))"
  obtain go s1 where p: "pre = (go, s1)" by (cases pre)
  have s1: "s1 = snd pre" using p by simp
  have f1: "waiters s1 = waiters s" "cachedResponse s1 = cachedResponse s"
    unfolding s1 pre_def
    by (simp_all add: dataReceived_def split: serverSockMode.splits option.splits)
  have ok1: "sock_ok s1" using sock_ok_fields [OF assms(1), of s1] f1 by simp
  have r: "stunMessageReceived g ttl now s localaddr frm m =
      (if \<not> go then Ok s1
       else
        (case getAndRemoveWaiter s1 (TransactionID m) of
           (s2, Some ch) \<Rightarrow>
             Ok (s2\<lparr>effects := effects s2
                     @ [ChanSend ch \<lparr>rsp_res = m, rsp_from = frm\<rparr>, ChanClose ch]\<rparr>)
         | (s2, None) \<Rightarrow>
             (case checkCachedResponse ttl now s2 m frm of
                Ok (s3, True) \<Rightarrow> Ok s3
              | Ok (s3, False) \<Rightarrow>
                  Ok (if cb s3
                      then s3\<lparr>effects := effects s3 @ [RecieveStunMessage localaddr frm m]\<rparr>
                      else s3)
              | Err e \<Rightarrow> Err e
              | Panic x \<Rightarrow> Panic x)))"
    unfolding stunMessageReceived_def pre_def [symmetric] p by simp
  show ?thesis
  proof (cases go)
    case False
    then show ?thesis using r assms(2) ok1 by simp
  next
    case True
    show ?thesis
    proof (cases "map_of (waiters s1) (TransactionID m)")
      case (Some ch)
      then have "s' = (s1\<lparr>waiters := AList.delete (TransactionID m) (waiters s1)\<rparr>)
                    \<lparr>effects := effects s1
                     @ [ChanSend ch \<lparr>rsp_res = m, rsp_from = frm\<rparr>, ChanClose ch]\<rparr>"
        using r assms(2) True by (simp add: getAndRemoveWaiter_def)
      then have "waiters s' = AList.delete (TransactionID m) (waiters s1)"
        "cachedResponse s' = cachedResponse s1" by simp_all
      then show ?thesis using sock_ok_fields [OF ok1, of s'] by auto
    next
      case None
      then have g: "getAndRemoveWaiter s1 (TransactionID m) = (s1, None)"
        by (simp add: getAndRemoveWaiter_def)
      obtain s3 b where c: "checkCachedResponse ttl now s1 m frm = Ok (s3, b)"
        using r assms(2) True g by (auto split: result.splits)
      have ok1c: "cache_ok s1" using ok1 by (simp add: sock_ok_def)
      note f3 = checkCachedResponse_fields [OF ok1c c]
      have ok3: "sock_ok s3" using sock_ok_fields [OF ok1, of s3] f3 by blast
      have "waiters s' = waiters s3" "cachedResponse s' = cachedResponse s3"
        using r assms(2) True g c by (auto split: if_splits bool.splits)
      then show ?thesis using sock_ok_fields [OF ok3, of s'] by simp
    qed
  qed
qed

lemma sock_ok_addWaiter:
  assumes "sock_ok s" and "map_of (cachedResponse s) key = None"
    and "addWaiter s key ch = Ok s'"
  shows "sock_ok s'"
proof -
  have s': "s' = s\<lparr>waiters := AList.update key ch (waiters s)\<rparr>"
    using assms(3) by (auto simp: addWaiter_def split: if_splits)
  have "list_all (\<lambda>w. map_of (cachedResponse s) (fst w) = None)
          (AList.update key ch (waiters s))"
    using assms(1,2) by (auto simp: sock_ok_def intro: list_all_update_alist)
  then show ?thesis using assms(1) by (simp add: s' sock_ok_def cache_ok_def)
qed

lemma sock_ok_sendStunMessageAsync:
  assumes "sock_ok s" and "map_of (waiters s) (TransactionID m) = None"
    and "sendStunMessageAsync t0 s m fromaddr toaddr = Ok s'"
  shows "sock_ok s'"
proof -
  have w: "waiters s' = waiters s"
    using assms(3) by (auto simp: sendStunMessageAsync_def sendData_def Let_def split: if_splits)
  have c: "cachedResponse s' = cachedResponse s
           \<or> cachedResponse s' = AList.update (TransactionID m) \<lparr>cacheTime = t0, cr_msg = m\<rparr>
                                    (cachedResponse s)"
    using assms(3) by (auto simp: sendStunMessageAsync_def sendData_def Let_def split: if_splits)
  have nk: "fst x \<noteq> TransactionID m" if "x \<in> set (waiters s)" for x
  proof
    assume "fst x = TransactionID m"
    then have "TransactionID m \<in> fst ` set (waiters s)" using that by force
    then show False using assms(2) by (simp add: map_of_eq_None_iff)
  qed
  have la: "list_all (\<lambda>p. TransactionID (cr_msg (snd p)) = fst p)
              (AList.update (TransactionID m) \<lparr>cacheTime = t0, cr_msg = m\<rparr> (cachedResponse s))"
    using assms(1) by (intro list_all_update_alist) (simp_all add: sock_ok_def cache_ok_def)
  have co: "cache_ok s'"
    using assms(1) c la
    by (auto simp: sock_ok_def cache_ok_def distinct_update)
  have "list_all (\<lambda>x. map_of (cachedResponse s') (fst x) = None) (waiters s')"
    using assms(1) c w nk by (auto simp: sock_ok_def list_all_iff update_conv')
  then show ?thesis using co by (simp add: sock_ok_def)
qed

text \<open>
  Claim C2. Let the socket be in a state its operations produce (every response cached
  under its own id, no waiter under a cached id), and let a STUN request arrive (class
  Request; ChannelData is the method this code gives to channel-data frames, which are not
  requests) whose transaction id and method are those of a cached response. If the entry
  is not older than the TTL, \<^verbatim>\<open>serveConn\<close> and \<^verbatim>\<open>stunMessageReceived\<close> hand the raw bytes of
  the cached response to the raw send for the sender (which queues them unless the socket
  is stopped), delete the entries that are older, and make no call on the callback. If the
  entry is older than the TTL it is deleted, nothing is sent, and the request goes to
  \<^verbatim>\<open>RecieveStunMessage\<close>.
\<close>

theorem cached_response_resent:
  assumes "sock_ok s"
    and "Class (Type req) = ClassRequest"
    and "Method (Type req) \<noteq> MethodChannelData"
    and "map_of (cachedResponse s) (TransactionID req) = Some c"
    and "Method (Type (cr_msg c)) = Method (Type req)"
    and "decode raw = Some req"
  shows "(\<not> cacheTime c + ttl < now \<longrightarrow>
            serveConn decode g ttl now s (Ok (raw, frm))
              = Ok (if stoped s then evicted ttl now s
                    else (evicted ttl now s)\<lparr>sendchan := sendchan s
                            @ [\<lparr>sr_data = Raw (cr_msg c), sr_to = frm\<rparr>]\<rparr>)
            \<and> stunMessageReceived g ttl now s localaddr frm req
              = Ok (if stoped s then evicted ttl now s
                    else (evicted ttl now s)\<lparr>sendchan := sendchan s
                            @ [\<lparr>sr_data = Raw (cr_msg c), sr_to = frm\<rparr>]\<rparr>))
         \<and> (cacheTime c + ttl < now \<longrightarrow>
              serveConn decode g ttl now s (Ok (raw, frm))
                = Ok (if cb s
                      then (evicted ttl now s)\<lparr>effects := effects s
                              @ [RecieveStunMessage (Addr s) frm req]\<rparr>
                      else evicted ttl now s)
              \<and> stunMessageReceived g ttl now s localaddr frm req
                = Ok (if cb s
                      then (evicted ttl now s)\<lparr>effects := effects s
                              @ [RecieveStunMessage localaddr frm req]\<rparr>
                      else evicted ttl now s)
              \<and> (TransactionID req, c) \<notin> set (cachedResponse (evicted ttl now s)))"
proof -
  have ok: "cache_ok s" using assms(1) by (simp add: sock_ok_def)
  have nw: "map_of (waiters s) (TransactionID req) = None"
    using sock_ok_no_waiter [OF assms(1,4)] .
  have ni: "Type req \<noteq> BindingIndication" "Type req \<noteq> SendIndication"
    using assms(2) by (auto simp: BindingIndication_def SendIndication_def)
  have sc: "serveConn decode g ttl now s (Ok (raw, frm))
              = stunMessageReceived g ttl now s (Addr s) frm req"
    using assms(6) ni by (simp add: serveConn_def)
  have hit: "stunMessageReceived g ttl now s l frm req
              = Ok (if stoped s then evicted ttl now s
                    else (evicted ttl now s)\<lparr>sendchan := sendchan s
                            @ [\<lparr>sr_data = Raw (cr_msg c), sr_to = frm\<rparr>]\<rparr>)"
    if fresh: "\<not> cacheTime c + ttl < now" for l
    unfolding stunMessageReceived_no_waiter [OF nw assms(3)]
      checkCachedResponse_hit [OF ok assms(4,5) fresh]
    by simp
  have old: "stunMessageReceived g ttl now s l frm req
                = Ok (if cb s
                      then (evicted ttl now s)\<lparr>effects := effects s
                              @ [RecieveStunMessage l frm req]\<rparr>
                      else evicted ttl now s)"
    if o: "cacheTime c + ttl < now" for l
    unfolding stunMessageReceived_no_waiter [OF nw assms(3)]
      checkCachedResponse_expired [OF ok assms(4) o]
    by (simp add: evicted_def)
  have gone: "(TransactionID req, c) \<notin> set (cachedResponse (evicted ttl now s))"
    if "cacheTime c + ttl < now"
    using that by (simp add: evicted_def)
  show ?thesis
    using hit [of "Addr s"] hit [of localaddr] old [of "Addr s"] old [of localaddr] gone
    by (simp only: sc) blast
qed

theorem cached_response_resent_witness:
  "sendStunMessageAsync 100 sock0 response7 ''10.0.0.1:5000'' ''10.0.0.2:6000'' = Ok sockCached
   \<and> sock_ok sockCached
   \<and> serveConn (\<lambda>b. Some request7) (\<lambda>m. None) 5 103 sockCached (Ok ([0, 1], ''10.0.0.2:6000''))
     = Ok (sockCached\<lparr>sendchan := sendchan sockCached
                         @ [\<lparr>sr_data = [1, 1], sr_to = ''10.0.0.2:6000''\<rparr>]\<rparr>)
   \<and> serveConn (\<lambda>b. Some request7) (\<lambda>m. None) 5 106 sockCached (Ok ([0, 1], ''10.0.0.2:6000''))
     = Ok (sockCached\<lparr>cachedResponse := [],
             effects := [RecieveStunMessage ''10.0.0.1:5000'' ''10.0.0.2:6000'' request7]\<rparr>)"
proof -
  have r: "sendStunMessageAsync 100 sock0 response7 ''10.0.0.1:5000'' ''10.0.0.2:6000''
             = Ok sockCached"
    by (simp add: sendStunMessageAsync_def sendData_def sockCached_def sock0_def
        newStunServerSock_def response7_def BindingSuccess_def)
  have w0: "map_of (waiters sock0) (TransactionID response7) = None"
    by (simp add: sock0_def newStunServerSock_def)
  have ok0: "sock_ok sock0" unfolding sock0_def by (rule sock_ok_new)
  have ok: "sock_ok sockCached" using sock_ok_sendStunMessageAsync [OF ok0 w0 r] .
  have q: "Class (Type request7) = ClassRequest"
    by (simp add: request7_def BindingRequest_def)
  have m: "Method (Type request7) \<noteq> MethodChannelData"
    by (simp add: request7_def BindingRequest_def)
  have c: "map_of (cachedResponse sockCached) (TransactionID request7)
             = Some \<lparr>cacheTime = 100, cr_msg = response7\<rparr>"
    by (simp add: sockCached_def request7_def)
  have mm: "Method (Type (cr_msg \<lparr>cacheTime = 100, cr_msg = response7\<rparr>)) = Method (Type request7)"
    by (simp add: request7_def response7_def BindingRequest_def BindingSuccess_def)
  have d: "(\<lambda>b. Some request7) [0, 1] = Some request7" by simp
  note t = cached_response_resent [OF ok q m c mm d]
  have e1: "evicted 5 103 sockCached = sockCached"
    by (simp add: evicted_def sockCached_def)
  have e2: "evicted 5 106 sockCached = sockCached\<lparr>cachedResponse := []\<rparr>"
    by (simp add: evicted_def sockCached_def)
  have st: "\<not> stoped sockCached" "cb sockCached" "effects sockCached = []"
    "Addr sockCached = ''10.0.0.1:5000''"
    by (simp_all add: sockCached_def sock0_def newStunServerSock_def)
  have c1: "serveConn (\<lambda>b. Some request7) (\<lambda>m. None) 5 103 sockCached (Ok ([0, 1], ''10.0.0.2:6000''))
     = Ok (sockCached\<lparr>sendchan := sendchan sockCached
                         @ [\<lparr>sr_data = [1, 1], sr_to = ''10.0.0.2:6000''\<rparr>]\<rparr>)"
    using t [where ttl = 5 and now = 103 and g = "\<lambda>m. None" and frm = "''10.0.0.2:6000''"]
    by (simp add: e1 st response7_def)
  have c2: "serveConn (\<lambda>b. Some request7) (\<lambda>m. None) 5 106 sockCached (Ok ([0, 1], ''10.0.0.2:6000''))
     = Ok (sockCached\<lparr>cachedResponse := [],
             effects := [RecieveStunMessage ''10.0.0.1:5000'' ''10.0.0.2:6000'' request7]\<rparr>)"
    using t [where ttl = 5 and now = 106 and g = "\<lambda>m. None" and frm = "''10.0.0.2:6000''"]
    by (simp add: e2 st)
  show ?thesis using r ok c1 c2 by (intro conjI)
qed

section \<open>The TURN server-socket\<close>

text \<open>
  Claim C6. A Data indication read from the connection is handed to the callback, which
  for the embedded socket is the TURN socket. \<^verbatim>\<open>turnServerSock.RecieveStunMessage\<close> panics
  when the indication comes from an address other than the TURN server, and panics when
  the indication carries no DATA attribute; it neither logs nor drops.
\<close>

theorem data_indication_panics:
  "serveConn (\<lambda>b. Some dataInd) g ttl now sock0 (Ok ([0, 23], ''6.6.6.6:1''))
     = Ok (sock0\<lparr>effects := [RecieveStunMessage ''10.0.0.1:5000'' ''6.6.6.6:1'' dataInd]\<rparr>)
   \<and> ts_RecieveStunMessage lib ttl now turn0 ''10.0.0.1:5000'' ''6.6.6.6:1'' dataInd
     = Panic ''data indication from unkown address''
   \<and> ts_RecieveStunMessage refLib ttl now turn0 ''10.0.0.1:5000'' ''1.2.3.4:3478'' dataInd
     = Panic ''unexpected message..''"
  by (simp add: serveConn_def stunMessageReceived_def getAndRemoveWaiter_def
      checkCachedResponse_def ts_RecieveStunMessage_def refLib_def Get_def
      sock0_def turn0_def newStunServerSock_def dataInd_def
      DataIndication_def BindingIndication_def SendIndication_def)

theorem data_indication_panics_witness:
  "serveConn (\<lambda>b. Some dataInd) (\<lambda>m. None) 5 0 sock0 (Ok ([0, 23], ''6.6.6.6:1''))
     = Ok (sock0\<lparr>effects := [RecieveStunMessage ''10.0.0.1:5000'' ''6.6.6.6:1'' dataInd]\<rparr>)
   \<and> ts_RecieveStunMessage refLib 5 0 turn0 ''10.0.0.1:5000'' ''6.6.6.6:1'' dataInd
     = Panic ''data indication from unkown address''
   \<and> ts_RecieveStunMessage refLib 5 0 turn0 ''10.0.0.1:5000'' ''1.2.3.4:3478'' dataInd
     = Panic ''unexpected message..''"
  using data_indication_panics [of "\<lambda>m. None" 5 0 refLib] by simp

lemma sendData_enqueue: "sendData s dat (Addr s) toaddr = Ok (enqueue s dat toaddr)"
  by (simp add: sendData_def enqueue_def)

lemma sendStunMessageAsync_indication:
  "Class (Type m) = ClassIndication \<Longrightarrow>
   sendStunMessageAsync now s m (Addr s) toaddr = Ok (enqueue s (Raw m) toaddr)"
  by (simp add: sendStunMessageAsync_def sendData_enqueue)

text \<open>
  Claim C3. \<^verbatim>\<open>turnServerSock.sendData\<close> with the relayed address as source: when the
  destination is bound to a channel number \<open>n\<close> in \<^verbatim>\<open>[0x4000, 0x7FFF]\<close>, the bytes sent are
  those of the ChannelData message built from \<open>n\<close> (unchanged by its conversion to 16 bits)
  and the payload, and they go to the TURN server; when the destination is bound to no
  channel, the bytes sent are those of the SendIndication built with DATA = payload and
  the peer address = destination, and they go to the TURN server. With the bound address
  as source (the two addresses differ) the payload itself goes to the destination. A STUN
  message sent from the relayed address is wrapped the same way by \<^verbatim>\<open>wrapperStunMessage\<close>.
  Sent means handed to the write task, which happens unless the socket is stopped.
\<close>

theorem turn_sendData_routing:
  "(fromaddr = relayAddress (ts_cfg ts)
      \<and> map_of (address2ChannelNumber (ts_s ts)) toaddr = Some n
      \<and> MinChannelNumber \<le> n \<and> n \<le> MaxChannelNumber
      \<and> Build lib [SetType ChannelDataRequest] = Ok r0
      \<and> ChannelData_AddTo lib \<lparr>cd_ChannelNumber = word_of_int n, cd_Data = dat\<rparr> r0 = Ok r
    \<longrightarrow> uint (word_of_int n :: 16 word) = n
        \<and> ts_sendData lib tid now ts dat fromaddr toaddr
            = Ok (ts\<lparr>ts_s := enqueue (ts_s ts) (Raw r) (serverAddr (ts_cfg ts))\<rparr>))
   \<and> (fromaddr = relayAddress (ts_cfg ts)
      \<and> map_of (address2ChannelNumber (ts_s ts)) toaddr = None
      \<and> Build lib [TransactionIDSetter tid, SetType SendIndication, Data dat,
                    PeerAddress (addrToUDPAddr lib toaddr), Fingerprint] = Ok r
      \<and> Type r = SendIndication
    \<longrightarrow> ts_sendData lib tid now ts dat fromaddr toaddr
            = Ok (ts\<lparr>ts_s := enqueue (ts_s ts) (Raw r) (serverAddr (ts_cfg ts))\<rparr>))
   \<and> (fromaddr = Addr (ts_s ts) \<and> fromaddr \<noteq> relayAddress (ts_cfg ts)
    \<longrightarrow> ts_sendData lib tid now ts dat fromaddr toaddr
            = Ok (ts\<lparr>ts_s := enqueue (ts_s ts) dat toaddr\<rparr>))
   \<and> (fromaddr = relayAddress (ts_cfg ts) \<and> fromaddr \<noteq> Addr (ts_s ts)
    \<longrightarrow> wrapperStunMessage lib tid ts fromaddr toaddr m
            = Ok (fst (MessageBuild lib
                    [TransactionIDSetter tid, SetType SendIndication,
                     PeerAddress (addrToUDPAddr lib toaddr), Data (Raw m), Fingerprint]),
                  Addr (ts_s ts), serverAddr (ts_cfg ts)))"
proof (intro conjI impI)
  assume a: "fromaddr = relayAddress (ts_cfg ts)
      \<and> map_of (address2ChannelNumber (ts_s ts)) toaddr = Some n
      \<and> MinChannelNumber \<le> n \<and> n \<le> MaxChannelNumber
      \<and> Build lib [SetType ChannelDataRequest] = Ok r0
      \<and> ChannelData_AddTo lib \<lparr>cd_ChannelNumber = word_of_int n, cd_Data = dat\<rparr> r0 = Ok r"
  have "0 \<le> n" "n < 65536" using a by (simp_all add: MinChannelNumber_def MaxChannelNumber_def)
  then show "uint (word_of_int n :: 16 word) = n"
    by (simp add: uint_word_of_int)
  show "ts_sendData lib tid now ts dat fromaddr toaddr
            = Ok (ts\<lparr>ts_s := enqueue (ts_s ts) (Raw r) (serverAddr (ts_cfg ts))\<rparr>)"
    using a by (simp add: ts_sendData_def sendData_enqueue)
next
  assume a: "fromaddr = relayAddress (ts_cfg ts)
      \<and> map_of (address2ChannelNumber (ts_s ts)) toaddr = None
      \<and> Build lib [TransactionIDSetter tid, SetType SendIndication, Data dat,
                    PeerAddress (addrToUDPAddr lib toaddr), Fingerprint] = Ok r
      \<and> Type r = SendIndication"
  have c: "Class (Type r) = ClassIndication" using a by (simp add: SendIndication_def)
  show "ts_sendData lib tid now ts dat fromaddr toaddr
            = Ok (ts\<lparr>ts_s := enqueue (ts_s ts) (Raw r) (serverAddr (ts_cfg ts))\<rparr>)"
    using a
    by (simp add: ts_sendData_def sendStunMessageAsync_indication [OF c]
        MinChannelNumber_def MaxChannelNumber_def)
next
  assume a: "fromaddr = Addr (ts_s ts) \<and> fromaddr \<noteq> relayAddress (ts_cfg ts)"
  then have sd: "sendData (ts_s ts) dat fromaddr toaddr = Ok (enqueue (ts_s ts) dat toaddr)"
    using sendData_enqueue [of "ts_s ts" dat toaddr] by simp
  have ne: "fromaddr \<noteq> relayAddress (ts_cfg ts)" using a by (rule conjunct2)
  show "ts_sendData lib tid now ts dat fromaddr toaddr
            = Ok (ts\<lparr>ts_s := enqueue (ts_s ts) dat toaddr\<rparr>)"
    by (simp add: ts_sendData_def ne sd)
next
  assume a: "fromaddr = relayAddress (ts_cfg ts) \<and> fromaddr \<noteq> Addr (ts_s ts)"
  have e: "fromaddr = relayAddress (ts_cfg ts)" using a by (rule conjunct1)
  have ne: "fromaddr \<noteq> Addr (ts_s ts)" using a by (rule conjunct2)
  show "wrapperStunMessage lib tid ts fromaddr toaddr m
            = Ok (fst (MessageBuild lib
                    [TransactionIDSetter tid, SetType SendIndication,
                     PeerAddress (addrToUDPAddr lib toaddr), Data (Raw m), Fingerprint]),
                  Addr (ts_s ts), serverAddr (ts_cfg ts))"
    unfolding wrapperStunMessage_def Let_def using e ne by (simp add: ne)
qed

theorem turn_sendData_routing_witness:
  "ts_sendData refLib 3 0 (turn0\<lparr>ts_s := SetChannelNumber sock0 0x4000 ''10.0.0.2:6000''\<rparr>)
       [5, 6, 7] ''1.2.3.4:49152'' ''10.0.0.2:6000''
     = Ok (turn0\<lparr>ts_s := (SetChannelNumber sock0 0x4000 ''10.0.0.2:6000'')
             \<lparr>sendchan := [\<lparr>sr_data = [64, 0, 0, 3, 5, 6, 7], sr_to = ''1.2.3.4:3478''\<rparr>]\<rparr>\<rparr>)
   \<and> ts_sendData refLib 3 0 turn0 [5, 6, 7] ''1.2.3.4:49152'' ''10.0.0.2:6000''
     = Ok (turn0\<lparr>ts_s := sock0
             \<lparr>sendchan := [\<lparr>sr_data = [0, 19, 0, 3, 5, 6, 7, 0, 0, 18, 0, 6, 10, 0, 0, 9, 15, 160, 0, 0],
                            sr_to = ''1.2.3.4:3478''\<rparr>]\<rparr>\<rparr>)
   \<and> ts_sendData refLib 3 0 turn0 [5, 6, 7] ''10.0.0.1:5000'' ''10.0.0.2:6000''
     = Ok (turn0\<lparr>ts_s := sock0
             \<lparr>sendchan := [\<lparr>sr_data = [5, 6, 7], sr_to = ''10.0.0.2:6000''\<rparr>]\<rparr>\<rparr>)
   \<and> wrapperStunMessage refLib 3 turn0 ''1.2.3.4:49152'' ''10.0.0.2:6000'' request7
     = Ok (\<lparr>Type = SendIndication, TransactionID = 3,
             Attributes = [(AttrXORPeerAddress, [10, 0, 0, 9, 15, 160]), (AttrData, [0, 1])],
             Raw = [0, 18, 0, 6, 10, 0, 0, 9, 15, 160, 0, 0, 0, 19, 0, 2, 0, 1, 0, 0]\<rparr>,
           ''10.0.0.1:5000'', ''1.2.3.4:3478'')"
proof -
  let ?tsb = "turn0\<lparr>ts_s := SetChannelNumber sock0 0x4000 ''10.0.0.2:6000''\<rparr>"
  let ?rq = "newMessage\<lparr>Type := ChannelDataRequest\<rparr>"
  let ?r = "?rq\<lparr>Raw := [64, 0, 0, 3, 5, 6, 7]\<rparr>"
  let ?ind = "\<lparr>Type = SendIndication, TransactionID = 3,
             Attributes = [(AttrData, [5, 6, 7]), (AttrXORPeerAddress, [10, 0, 0, 9, 15, 160])],
             Raw = [0, 19, 0, 3, 5, 6, 7, 0, 0, 18, 0, 6, 10, 0, 0, 9, 15, 160, 0, 0]\<rparr>"
  have h1: "''1.2.3.4:49152'' = relayAddress (ts_cfg ?tsb)
      \<and> map_of (address2ChannelNumber (ts_s ?tsb)) ''10.0.0.2:6000'' = Some 0x4000
      \<and> MinChannelNumber \<le> 0x4000 \<and> 0x4000 \<le> MaxChannelNumber
      \<and> Build refLib [SetType ChannelDataRequest] = Ok ?rq
      \<and> ChannelData_AddTo refLib \<lparr>cd_ChannelNumber = word_of_int 0x4000, cd_Data = [5, 6, 7]\<rparr> ?rq
          = Ok ?r"
    by (simp add: turn0_def sock0_def newStunServerSock_def SetChannelNumber_def
        MinChannelNumber_def MaxChannelNumber_def Build_def refLib_def be16_def)
  have h2: "''1.2.3.4:49152'' = relayAddress (ts_cfg turn0)
      \<and> map_of (address2ChannelNumber (ts_s turn0)) ''10.0.0.2:6000'' = None
      \<and> Build refLib [TransactionIDSetter 3, SetType SendIndication, Data [5, 6, 7],
                    PeerAddress (addrToUDPAddr refLib ''10.0.0.2:6000''), Fingerprint] = Ok ?ind
      \<and> Type ?ind = SendIndication"
    by code_simp
  have h3: "''10.0.0.1:5000'' = Addr (ts_s turn0) \<and> ''10.0.0.1:5000'' \<noteq> relayAddress (ts_cfg turn0)"
    by (simp add: turn0_def sock0_def newStunServerSock_def)
  have h4: "''1.2.3.4:49152'' = relayAddress (ts_cfg turn0) \<and> ''1.2.3.4:49152'' \<noteq> Addr (ts_s turn0)"
    by (simp add: turn0_def sock0_def newStunServerSock_def)
  note t1 = turn_sendData_routing [of "''1.2.3.4:49152''" ?tsb "''10.0.0.2:6000''" "0x4000" refLib ?rq
      "[5, 6, 7]" ?r 3 0, THEN conjunct1, rule_format, OF h1]
  note t2 = turn_sendData_routing [of "''1.2.3.4:49152''" turn0 "''10.0.0.2:6000''" _ refLib _
      "[5, 6, 7]" ?ind 3 0, THEN conjunct2, THEN conjunct1, rule_format, OF h2]
  note t3 = turn_sendData_routing [of "''10.0.0.1:5000''" turn0 "''10.0.0.2:6000''" _ refLib _
      "[5, 6, 7]" _ 3 0, THEN conjunct2, THEN conjunct2, THEN conjunct1, rule_format, OF h3]
  note t4 = turn_sendData_routing [of "''1.2.3.4:49152''" turn0 "''10.0.0.2:6000''" _ refLib _
      _ _ 3 _ request7, THEN conjunct2, THEN conjunct2, THEN conjunct2, rule_format, OF h4]
  have c1: "ts_sendData refLib 3 0 ?tsb [5, 6, 7] ''1.2.3.4:49152'' ''10.0.0.2:6000''
     = Ok (turn0\<lparr>ts_s := (SetChannelNumber sock0 0x4000 ''10.0.0.2:6000'')
             \<lparr>sendchan := [\<lparr>sr_data = [64, 0, 0, 3, 5, 6, 7], sr_to = ''1.2.3.4:3478''\<rparr>]\<rparr>\<rparr>)"
    using t1 by (simp add: enqueue_def turn0_def sock0_def newStunServerSock_def SetChannelNumber_def)
  have c2: "ts_sendData refLib 3 0 turn0 [5, 6, 7] ''1.2.3.4:49152'' ''10.0.0.2:6000''
     = Ok (turn0\<lparr>ts_s := sock0
             \<lparr>sendchan := [\<lparr>sr_data = [0, 19, 0, 3, 5, 6, 7, 0, 0, 18, 0, 6, 10, 0, 0, 9, 15, 160, 0, 0],
                            sr_to = ''1.2.3.4:3478''\<rparr>]\<rparr>\<rparr>)"
    using t2 by (simp add: enqueue_def turn0_def sock0_def newStunServerSock_def)
  have c3: "ts_sendData refLib 3 0 turn0 [5, 6, 7] ''10.0.0.1:5000'' ''10.0.0.2:6000''
     = Ok (turn0\<lparr>ts_s := sock0
             \<lparr>sendchan := [\<lparr>sr_data = [5, 6, 7], sr_to = ''10.0.0.2:6000''\<rparr>]\<rparr>\<rparr>)"
    using t3 by (simp add: enqueue_def turn0_def sock0_def newStunServerSock_def)
  have c4: "wrapperStunMessage refLib 3 turn0 ''1.2.3.4:49152'' ''10.0.0.2:6000'' request7
     = Ok (\<lparr>Type = SendIndication, TransactionID = 3,
             Attributes = [(AttrXORPeerAddress, [10, 0, 0, 9, 15, 160]), (AttrData, [0, 1])],
             Raw = [0, 18, 0, 6, 10, 0, 0, 9, 15, 160, 0, 0, 0, 19, 0, 2, 0, 1, 0, 0]\<rparr>,
           ''10.0.0.1:5000'', ''1.2.3.4:3478'')"
  proof -
    have "fst (MessageBuild refLib
                    [TransactionIDSetter 3, SetType SendIndication,
                     PeerAddress (addrToUDPAddr refLib ''10.0.0.2:6000''), Data (Raw request7),
                     Fingerprint])
          = \<lparr>Type = SendIndication, TransactionID = 3,
             Attributes = [(AttrXORPeerAddress, [10, 0, 0, 9, 15, 160]), (AttrData, [0, 1])],
             Raw = [0, 18, 0, 6, 10, 0, 0, 9, 15, 160, 0, 0, 0, 19, 0, 2, 0, 1, 0, 0]\<rparr>"
      by code_simp
    then show ?thesis
      using t4 by (simp add: turn0_def sock0_def newStunServerSock_def)
  qed
  show ?thesis using c1 c2 c3 c4 by (intro conjI)
qed


section \<open>Channel binding\<close>

lemma channelNumbersOf_bind:
  "channelNumbersOf (channelBindSetters lib tid ts peer) = [MinChannelNumber]"
  by (simp add: channelBindSetters_def)

lemma channelBinds_numbers:
  "channelBinds lib now ts reqs = Ok (ts', ns) \<Longrightarrow> ns = replicate (length reqs) MinChannelNumber"
proof (induction reqs arbitrary: ts ts' ns)
  case Nil
  then show ?case by simp
next
  case (Cons q reqs)
  obtain peer tid ch outcome where q: "q = (peer, tid, ch, outcome)" by (cases q)
  from Cons.prems q obtain ts1 e ts2 ns2 where
    b: "channelBind lib tid now ts peer ch outcome = Ok (ts1, e)"
    and r: "channelBinds lib now ts1 reqs = Ok (ts2, ns2)"
    and n: "ns = channelNumbersOf (channelBindSetters lib tid ts peer) @ ns2"
    by (auto split: result.splits prod.splits)
  have "ns2 = replicate (length reqs) MinChannelNumber" using Cons.IH [OF r] .
  then show ?case using n by (simp add: channelNumbersOf_bind)
qed

lemma channelBind_records:
  assumes "channelBind lib tid now ts peer ch outcome = Ok (ts2, None)"
  shows "map_of (address2ChannelNumber (ts_s ts2)) peer = Some MinChannelNumber
         \<and> map_of (channelNumber2Address (ts_s ts2)) MinChannelNumber = Some peer"
  using assms
  by (auto simp: channelBind_def SetChannelNumber_def update_conv'
        split: result.splits prod.splits if_splits)

text \<open>
  Claim C7, as amended. Every ChannelBindRequest carries the channel number \<^verbatim>\<open>0x4000\<close>,
  whatever the peer and however many binds went before; and when \<^verbatim>\<open>channelBind\<close> returns
  nil, the peer is mapped to \<^verbatim>\<open>0x4000\<close> and \<^verbatim>\<open>0x4000\<close> to the peer.
\<close>

theorem channelBind_fixed_number:
  "(channelBinds lib now ts reqs = Ok (ts', ns) \<longrightarrow> ns = replicate (length reqs) 0x4000)
   \<and> (channelBind lib tid now ts peer ch outcome = Ok (ts2, None) \<longrightarrow>
        map_of (address2ChannelNumber (ts_s ts2)) peer = Some 0x4000
        \<and> map_of (channelNumber2Address (ts_s ts2)) 0x4000 = Some peer)"
  using channelBinds_numbers [of lib now ts reqs ts' ns]
    channelBind_records [of lib tid now ts peer ch outcome ts2]
  by (simp add: MinChannelNumber_def)

theorem channelBind_fixed_number_witness:
  "channelBinds refLib 0 turn0
      [(''10.0.0.2:6000'', 1, 1, Received (bindSuccess 1)),
       (''10.0.0.3:7000'', 2, 2, Received (bindSuccess 2)),
       (''10.0.0.2:6000'', 3, 3, TimedOut)]
     = Ok (turnBound\<lparr>ts_s := (ts_s turnBound)
             \<lparr>waiters := [(3, 3)],
              sendchan := sendchan (ts_s turnBound)
                 @ [\<lparr>sr_data = bindRaw, sr_to = ''1.2.3.4:3478''\<rparr>]\<rparr>\<rparr>,
           [0x4000, 0x4000, 0x4000])
   \<and> channelBind refLib 2 0 turn0 ''10.0.0.3:7000'' 2 (Received (bindSuccess 2))
     = Ok (turn0\<lparr>ts_s := sock0
             \<lparr>channelNumber2Address := [(0x4000, ''10.0.0.3:7000'')],
              address2ChannelNumber := [(''10.0.0.3:7000'', 0x4000)],
              sendchan := [\<lparr>sr_data = bindRaw, sr_to = ''1.2.3.4:3478''\<rparr>]\<rparr>\<rparr>, None)
   \<and> map_of (address2ChannelNumber (ts_s (turn0\<lparr>ts_s := sock0
             \<lparr>channelNumber2Address := [(0x4000, ''10.0.0.3:7000'')],
              address2ChannelNumber := [(''10.0.0.3:7000'', 0x4000)],
              sendchan := [\<lparr>sr_data = bindRaw, sr_to = ''1.2.3.4:3478''\<rparr>]\<rparr>\<rparr>)))
         ''10.0.0.3:7000'' = Some 0x4000"
proof -
  let ?ts3 = "turnBound\<lparr>ts_s := (ts_s turnBound)
             \<lparr>waiters := [(3, 3)],
              sendchan := sendchan (ts_s turnBound)
                 @ [\<lparr>sr_data = bindRaw, sr_to = ''1.2.3.4:3478''\<rparr>]\<rparr>\<rparr>"
  let ?ts1 = "turn0\<lparr>ts_s := sock0
             \<lparr>channelNumber2Address := [(0x4000, ''10.0.0.3:7000'')],
              address2ChannelNumber := [(''10.0.0.3:7000'', 0x4000)],
              sendchan := [\<lparr>sr_data = bindRaw, sr_to = ''1.2.3.4:3478''\<rparr>]\<rparr>\<rparr>"
  have r: "channelBinds refLib 0 turn0
      [(''10.0.0.2:6000'', 1, 1, Received (bindSuccess 1)),
       (''10.0.0.3:7000'', 2, 2, Received (bindSuccess 2)),
       (''10.0.0.2:6000'', 3, 3, TimedOut)]
     = Ok (?ts3, [0x4000, 0x4000, 0x4000])"
    by code_simp
  have b: "channelBind refLib 2 0 turn0 ''10.0.0.3:7000'' 2 (Received (bindSuccess 2))
     = Ok (?ts1, None)"
    by code_simp
  note t = channelBind_fixed_number [of refLib 0 turn0 _ ?ts3 "[0x4000, 0x4000, 0x4000]"
      2 "''10.0.0.3:7000''" 2 "Received (bindSuccess 2)" ?ts1]
  have m: "map_of (address2ChannelNumber (ts_s ?ts1)) ''10.0.0.3:7000'' = Some 0x4000"
    using t r b by blast
  show ?thesis using r b m by (intro conjI)
qed

text \<open>
  Claim C7 as stated fails at the second bind. After successful binds to two different
  peers both requests have carried \<^verbatim>\<open>0x4000\<close>, not \<^verbatim>\<open>0x4000\<close> and then \<^verbatim>\<open>0x4001\<close>; both
  peers are mapped to \<^verbatim>\<open>0x4000\<close>, and \<^verbatim>\<open>0x4000\<close> is mapped to the second peer only. The
  source has no counter of channel numbers.
\<close>

theorem channelBind_counterexample:
  "channelBinds refLib 0 turn0
      [(''10.0.0.2:6000'', 1, 1, Received (bindSuccess 1)),
       (''10.0.0.3:7000'', 2, 2, Received (bindSuccess 2))]
     = Ok (turnBound, [0x4000, 0x4000])
   \<and> ''10.0.0.2:6000'' \<noteq> ''10.0.0.3:7000''
   \<and> [0x4000, 0x4000] \<noteq> [0x4000, 0x4001 :: int]
   \<and> map_of (address2ChannelNumber (ts_s turnBound)) ''10.0.0.2:6000'' = Some 0x4000
   \<and> map_of (address2ChannelNumber (ts_s turnBound)) ''10.0.0.3:7000'' = Some 0x4000
   \<and> map_of (channelNumber2Address (ts_s turnBound)) 0x4000 = Some ''10.0.0.3:7000''"
  by code_simp

section \<open>The STUN-only gatherer\<close>

lemma mapAddress_reported:
  assumes "EventError ev = None" and "EventMessage ev = Some m" and "reportedAddr lib m = Some a"
  shows "mapAddress lib s (Some ev) do_ret cbf
           = Some (Ok (s\<lparr>MappedAddr := a\<rparr>, if cbf then do_ret else None))"
  using assms
  by (auto simp: mapAddress_def mapAddress_callback_def reportedAddr_def split: result.splits)

lemma GetCandidates_reported:
  assumes "GetCandidates lib s (Some ev) do_ret cbf = Some (Ok (s', Ok cands))"
    and "EventError ev = None" and "EventMessage ev = Some m"
    and "reportedAddr lib m = Some a"
  shows "\<exists>hosts. getLocalCandidates lib (LocalAddr s) = Ok hosts
          \<and> (MappedAddr_String lib a \<noteq> LocalAddr s \<longrightarrow>
                cands = hosts @ [\<lparr>baseAddr = LocalAddr s, cand_Type = CandidateServerReflexive,
                                  addr = MappedAddr_String lib a,
                                  Foundation = calcFoundation lib (LocalAddr s)\<rparr>])
          \<and> (MappedAddr_String lib a = LocalAddr s \<longrightarrow> cands = hosts)"
  using assms(1) unfolding GetCandidates_def mapAddress_reported [OF assms(2,3,4)]
  by (auto simp: Let_def split: result.splits if_splits option.splits)

text \<open>
  Claim C8. The claim holds of the runs in which the Binding response reported an
  address (the lemma above), not of every run that returns without error. When the
  Binding transaction times out, the callback stores the error in \<^verbatim>\<open>err\<close> and sets no
  mapped address; \<^verbatim>\<open>Client.Do\<close>, which waits for the callback, then returns nil, and the
  assignment \<^verbatim>\<open>err = s.Client.Do(...)\<close> overwrites the stored error. \<^verbatim>\<open>mapAddress\<close> returns
  nil, and \<^verbatim>\<open>GetCandidates\<close> returns the host candidate followed by a ServerReflexive
  candidate whose address is the zero \<^verbatim>\<open>MappedAddr\<close> as printed (\<^verbatim>\<open>:0\<close>), an address no
  server reported.
\<close>

theorem GetCandidates_failed_binding:
  "mapAddress_callback (gatherLib '':0'') stunSocket0 timeoutEvent
     = Ok (stunSocket0, Some ErrTransactionTimeOut)
   \<and> mapAddress (gatherLib '':0'') stunSocket0 (Some timeoutEvent) None True
     = Some (Ok (stunSocket0, None))
   \<and> MappedAddr stunSocket0 = \<lparr>IP = [], Port = 0\<rparr>
   \<and> GetCandidates (gatherLib '':0'') stunSocket0 (Some timeoutEvent) None True
     = Some (Ok (stunSocket0\<lparr>localAddrs := [''192.168.1.5:4000'']\<rparr>,
                 Ok [\<lparr>baseAddr = ''192.168.1.5:4000'', cand_Type = CandidateHost,
                      addr = ''192.168.1.5:4000'', Foundation = ''f''\<rparr>,
                     \<lparr>baseAddr = ''192.168.1.5:4000'', cand_Type = CandidateServerReflexive,
                      addr = '':0'', Foundation = ''f''\<rparr>]))"
  by (simp add: GetCandidates_def mapAddress_def mapAddress_callback_def gatherLib_def
      stunSocket0_def timeoutEvent_def Let_def)

end
